theory Spec2Isabelle
  imports Main "HOL-Library.Multiset" "HOL-Library.Sublist" "HOL-Library.Option_ord"
begin

section \<open>JavaScript values\<close>

text \<open>
  The web client (\<^verbatim>\<open>code-rs/webui/src/app/App.vue\<close> and \<^verbatim>\<open>api/rollout.ts\<close>) works on
  values produced by \<^verbatim>\<open>JSON.parse\<close>. They are modelled by the datatype \<open>json\<close>; an
  absent property reads as \<open>JUndefined\<close>. Numbers are restricted to integers (indices,
  sequence numbers and counts are integers on the wire); an object is the association list
  of its own properties.
\<close>

datatype json =
    JUndefined
  | JNull
  | JBool bool
  | JNum int
  | JStr string
  | JArr "json list"
  | JObj "(string \<times> json) list"

text \<open>JavaScript truthiness (\<^verbatim>\<open>Boolean(v)\<close>, \<^verbatim>\<open>!v\<close>, \<^verbatim>\<open>if (v)\<close>).\<close>

fun truthy :: "json \<Rightarrow> bool" where
  "truthy JUndefined = False"
| "truthy JNull = False"
| "truthy (JBool b) = b"
| "truthy (JNum n) = (n \<noteq> 0)"
| "truthy (JStr s) = (s \<noteq> [])"
| "truthy (JArr xs) = True"
| "truthy (JObj kvs) = True"

text \<open>\<^verbatim>\<open>v === null || v === undefined\<close>.\<close>

fun nullish :: "json \<Rightarrow> bool" where
  "nullish JUndefined = True"
| "nullish JNull = True"
| "nullish v = False"

text \<open>\<^verbatim>\<open>a || b\<close> and \<^verbatim>\<open>a ?? b\<close>.\<close>

definition js_or :: "json \<Rightarrow> json \<Rightarrow> json" where
  "js_or a b = (if truthy a then a else b)"

definition js_coalesce :: "json \<Rightarrow> json \<Rightarrow> json" where
  "js_coalesce a b = (if nullish a then b else a)"

text \<open>
  Property read \<^verbatim>\<open>v.k\<close> on a value that is not \<^verbatim>\<open>null\<close> or \<^verbatim>\<open>undefined\<close>, and the
  optional read \<^verbatim>\<open>v?.k\<close> on any value: a primitive or an array has none of the property
  names the client reads, so the result is \<^verbatim>\<open>undefined\<close>.
\<close>

fun getProp :: "json \<Rightarrow> string \<Rightarrow> json" where
  "getProp (JObj kvs) k = (case map_of kvs k of Some v \<Rightarrow> v | None \<Rightarrow> JUndefined)"
| "getProp v k = JUndefined"


fun isArray :: "json \<Rightarrow> bool" where
  "isArray (JArr xs) = True"
| "isArray v = False"

text \<open>\<^verbatim>\<open>typeof v === "object"\<close> (which holds of \<^verbatim>\<open>null\<close> too).\<close>

fun typeofObject :: "json \<Rightarrow> bool" where
  "typeofObject (JObj kvs) = True"
| "typeofObject (JArr xs) = True"
| "typeofObject JNull = True"
| "typeofObject v = False"

subsection \<open>Conversion to strings\<close>

definition digit_char :: "nat \<Rightarrow> char" where
  "digit_char d =
     (if d = 0 then CHR ''0'' else if d = 1 then CHR ''1'' else if d = 2 then CHR ''2''
      else if d = 3 then CHR ''3'' else if d = 4 then CHR ''4'' else if d = 5 then CHR ''5''
      else if d = 6 then CHR ''6'' else if d = 7 then CHR ''7'' else if d = 8 then CHR ''8''
      else CHR ''9'')"

function dec_nat :: "nat \<Rightarrow> string" where
  "dec_nat n = (if n < 10 then [digit_char n] else dec_nat (n div 10) @ [digit_char (n mod 10)])"
  by pat_completeness auto
termination
  by (relation "measure (\<lambda>n. n)") auto

declare dec_nat.simps [simp del]

definition dec_int :: "int \<Rightarrow> string" where
  "dec_int i = (if i < 0 then CHR ''-'' # dec_nat (nat (- i)) else dec_nat (nat i))"

text \<open>\<^verbatim>\<open>Array.prototype.join\<close> on strings.\<close>

fun js_join :: "string \<Rightarrow> string list \<Rightarrow> string" where
  "js_join sep [] = []"
| "js_join sep [x] = x"
| "js_join sep (x # y # ys) = x @ sep @ js_join sep (y # ys)"

text \<open>
  \<^verbatim>\<open>String(v)\<close>, which is also what a template literal applies to an interpolated
  value. An array prints its elements joined by commas, with \<^verbatim>\<open>null\<close> and
  \<^verbatim>\<open>undefined\<close> elements printed as the empty string.
\<close>

fun js_String :: "json \<Rightarrow> string" where
  "js_String JUndefined = ''undefined''"
| "js_String JNull = ''null''"
| "js_String (JBool b) = (if b then ''true'' else ''false'')"
| "js_String (JNum n) = dec_int n"
| "js_String (JStr s) = s"
| "js_String (JArr xs) = js_join '','' (map (\<lambda>x. if nullish x then [] else js_String x) xs)"
| "js_String (JObj kvs) = ''[object Object]''"

text \<open>The string an element contributes to \<^verbatim>\<open>array.join(sep)\<close>.\<close>

definition joinElem :: "json \<Rightarrow> string" where
  "joinElem v = (if nullish v then [] else js_String v)"

text \<open>
  \<^verbatim>\<open>asText\<close> of \<^verbatim>\<open>api/rollout.ts\<close>. \<^verbatim>\<open>JSON.stringify(value, null, 2)\<close> is a
  function of the runtime; it is the parameter \<open>stringify\<close> of every definition that
  reaches it.
\<close>

definition asText :: "(json \<Rightarrow> string) \<Rightarrow> json \<Rightarrow> string" where
  "asText stringify v =
     (if nullish v then []
      else (case v of JStr s \<Rightarrow> s | _ \<Rightarrow> stringify v))"

section \<open>Data model\<close>

datatype TimelineKind = Assistant | User | System | Tool | Exec | Diff | Review

fun kindName :: "TimelineKind \<Rightarrow> string" where
  "kindName Assistant = ''assistant''"
| "kindName User = ''user''"
| "kindName System = ''system''"
| "kindName Tool = ''tool''"
| "kindName Exec = ''exec''"
| "kindName Diff = ''diff''"
| "kindName Review = ''review''"

datatype Origin = FromHistory | FromEvent

text \<open>
  \<^verbatim>\<open>TimelineItem\<close>. \<open>title\<close> and \<open>imageUrl\<close> hold whatever value the payload
  carried (\<^verbatim>\<open>payload.name || payload.type || "Tool"\<close>, \<^verbatim>\<open>segment.image_url || segment.url\<close>);
  an absent optional field is \<open>None\<close>, respectively \<open>JUndefined\<close>.
\<close>

record TimelineItem =
  item_id :: string
  kind :: TimelineKind
  subkind :: "string option"
  title :: json
  item_text :: "string option"
  meta :: "string option"
  imageUrl :: json
  item_index :: "int option"
  eventKey :: "string option"
  origin :: "Origin option"

record RolloutEntry =
  entry_type :: string
  payload :: json

text \<open>\<^verbatim>\<open>HistoryLine = { index?: number; value?: RolloutEntry } & RolloutEntry\<close>.\<close>

record HistoryLine =
  line_index :: "int option"
  line_value :: "RolloutEntry option"
  line_type :: string
  line_payload :: json

record SessionSummary =
  conversation_id :: string
  message_count :: "int option"

record HistoryRequestPayload =
  req_before :: "int option"
  req_after :: "int option"
  req_anchor :: "string option"
  req_limit :: "int option"

text \<open>The envelope \<^verbatim>\<open>{ type: "history_request", ...request, rollout? }\<close>.\<close>

record HistoryRequestEnvelope =
  env_request :: HistoryRequestPayload
  env_rollout :: "string option"

datatype ControlMessage =
    ListConversations int
  | ResumeConversation string

text \<open>The \<^verbatim>\<open>history_chunk\<close> message handed to \<^verbatim>\<open>handleHistoryChunk\<close>.\<close>

record HistoryChunk =
  chunk_items :: "HistoryLine list"
  start_index :: "int option"
  end_index :: "int option"
  truncated :: bool
  chunk_before :: "int option"
  chunk_after :: "int option"
  chunk_anchor :: "string option"

datatype ReadyState = CONNECTING | OPEN | CLOSING | CLOSED

datatype HistoryWsMode = Initial | Stream

datatype HistoryMode = Tail | Head

datatype js_error = TypeError

datatype ErrorValue = Message string | Caught js_error

text \<open>
  The callbacks handed to \<^verbatim>\<open>window.setTimeout\<close>: the prime timer of
  \<^verbatim>\<open>schedulePrimeHistory\<close>, the fill timer of a tail response with the request its
  closure holds, the \<^verbatim>\<open>attempt\<close> of \<^verbatim>\<open>scheduleResume\<close> with the session id its closure
  holds, and the three timers of the history socket's \<^verbatim>\<open>connect\<close> (the 600 ms timer,
  the backoff timer and the retry timer, each with the target id and the token of its
  closure).
\<close>

datatype TimerCallback =
    PrimeHistoryCallback
  | PrimeFillCallback HistoryRequestPayload
  | ResumeAttempt string
  | HistoryConnectCallback string string
  | HistoryBackoffCallback string string
  | HistoryRetryCallback string string

record Timer =
  handle :: nat
  delay :: nat
  callback :: TimerCallback

section \<open>Client state\<close>

text \<open>
  The reactive references of \<^verbatim>\<open>App.vue\<close>, under their own names. A socket reference
  holds the \<^verbatim>\<open>readyState\<close> of its socket; a timer reference holds the handle that
  \<^verbatim>\<open>window.setTimeout\<close> returned. The effects of the client on the outside are fields as
  well: the pending timers of the window and the next handle it gives out, what was sent
  on each socket, and the persisted last conversation.
\<close>

record state =
  sessions :: "SessionSummary list"
  sessionsLoading :: bool
  activeId :: "string option"
  items :: "TimelineItem list"
  status :: string
  error :: "ErrorValue option"
  loading :: bool
  hasMoreBefore :: bool
  hasMoreAfter :: bool
  historyStart :: "int option"
  historyEnd :: "int option"
  sending :: bool
  historyMode :: HistoryMode
  runtimeId :: "string option"
  sessionLoading :: bool
  wsRef :: "ReadyState option"
  historyWsRef :: "ReadyState option"
  historyHandshakeRef :: "(string \<times> string) option"
  historyRetryRef :: "nat option"
  pendingHistoryRequests :: "HistoryRequestPayload list"
  historyWsDisabledRef :: bool
  historyWsAttemptRef :: nat
  historyWsUrlRef :: "string option"
  historyConnectTimerRef :: "nat option"
  historyWsModeRef :: HistoryWsMode
  historyInitialSessionRef :: "string option"
  historyActiveTokenRef :: "string option"
  knownSessionIdsRef :: "string set"
  lastRequestedSessionRef :: "string option"
  historyWsBackoffRef :: nat
  lastIndexRef :: "int option"
  seenLineIndexRef :: "int set"
  liveIndexRef :: "int option"
  seenEventRef :: "string set"
  reasoningIdRef :: "string option"
  controlWsRef :: "ReadyState option"
  pendingSessionsRef :: bool
  pendingResumeRef :: "string option"
  lazyHistory :: bool
  lazyHistoryReady :: bool
  historyPrimed :: bool
  primeHistoryTimerRef :: "nat option"
  primeHistoryInFlightRef :: bool
  primeFillTimerRef :: "nat option"
  primeFillInFlightRef :: bool
  primeFillExpectedBeforeRef :: "int option"
  taskActiveRef :: bool
  activityLabelRef :: "string option"
  activeExecCountRef :: int
  activeToolCountRef :: int
  token :: string
  streamSent :: "HistoryRequestEnvelope list"
  historySent :: "HistoryRequestEnvelope list"
  controlSent :: "ControlMessage list"
  timers :: "Timer list"
  nextTimerHandle :: nat
  lastConversation :: "string option"

text \<open>The initial values of the references (\<^verbatim>\<open>App.vue\<close>, lines 76 to 136).\<close>

definition initialState :: "string \<Rightarrow> state" where
  "initialState tok =
     \<lparr> sessions = [], sessionsLoading = False, activeId = None, items = [],
       status = ''Idle'', error = None, loading = False,
       hasMoreBefore = False, hasMoreAfter = False,
       historyStart = None, historyEnd = None, sending = False,
       historyMode = Tail, runtimeId = None, sessionLoading = False,
       wsRef = None, historyWsRef = None, historyHandshakeRef = None,
       historyRetryRef = None, pendingHistoryRequests = [],
       historyWsDisabledRef = False, historyWsAttemptRef = 0, historyWsUrlRef = None,
       historyConnectTimerRef = None, historyWsModeRef = Initial,
       historyInitialSessionRef = None, historyActiveTokenRef = None,
       knownSessionIdsRef = {},
       lastRequestedSessionRef = None, historyWsBackoffRef = 0,
       lastIndexRef = None, seenLineIndexRef = {}, liveIndexRef = None,
       seenEventRef = {}, reasoningIdRef = None, controlWsRef = None,
       pendingSessionsRef = False, pendingResumeRef = None,
       lazyHistory = True, lazyHistoryReady = False, historyPrimed = False,
       primeHistoryTimerRef = None, primeHistoryInFlightRef = False,
       primeFillTimerRef = None, primeFillInFlightRef = False,
       primeFillExpectedBeforeRef = None,
       taskActiveRef = False, activityLabelRef = None,
       activeExecCountRef = 0, activeToolCountRef = 0,
       token = tok, streamSent = [], historySent = [], controlSent = [],
       timers = [], nextTimerHandle = 1, lastConversation = None \<rparr>"

definition HISTORY_PRIME_LIMIT :: int where "HISTORY_PRIME_LIMIT = 40"
definition HISTORY_TARGET_LIMIT :: int where "HISTORY_TARGET_LIMIT = 200"
definition HISTORY_LARGE_SESSION_THRESHOLD :: int where "HISTORY_LARGE_SESSION_THRESHOLD = 10000"
definition HISTORY_LARGE_PRIME_LIMIT :: int where "HISTORY_LARGE_PRIME_LIMIT = 20"
definition HISTORY_AUTO_FILL_THRESHOLD :: int where "HISTORY_AUTO_FILL_THRESHOLD = 5000"

section \<open>Parsing history lines (\<^verbatim>\<open>api/rollout.ts\<close>)\<close>

definition extractEntry :: "HistoryLine \<Rightarrow> RolloutEntry" where
  "extractEntry line =
     (case line_value line of
        Some e \<Rightarrow> e
      | None \<Rightarrow> \<lparr> entry_type = line_type line, payload = line_payload line \<rparr>)"

definition makeId :: "int option \<Rightarrow> string \<Rightarrow> string" where
  "makeId index sfx =
     (case index of Some i \<Rightarrow> dec_int i | None \<Rightarrow> ''unknown'') @ ''-'' @ sfx"

definition eventKeyFromPayload :: "json \<Rightarrow> string option" where
  "eventKeyFromPayload p =
     (if \<not> truthy p then None
      else
        let ident = (case getProp p ''id'' of JStr s \<Rightarrow> s | _ \<Rightarrow> []);
            seq = getProp p ''event_seq''
        in if ident = [] \<and> nullish seq then None
           else Some (ident @ '':'' @ (if nullish seq then [] else js_String seq)))"

definition roleToKind :: "json \<Rightarrow> TimelineKind" where
  "roleToKind role =
     (if role = JStr ''assistant'' then Assistant
      else if role = JStr ''user'' then User
      else if role = JStr ''system'' \<or> role = JStr ''developer'' then System
      else if role = JStr ''tool'' then Tool
      else Assistant)"

definition paragraphBreak :: string where
  "paragraphBreak = [CHR 0x0A, CHR 0x0A]"

definition summarizePayload :: "json \<Rightarrow> string" where
  "summarizePayload p =
     (let lines =
            (case getProp p ''summary'' of
               JArr summary \<Rightarrow>
                 filter (\<lambda>t. t \<noteq> [])
                   (map (\<lambda>item. case getProp item ''text'' of JStr t \<Rightarrow> t | _ \<Rightarrow> []) summary)
             | _ \<Rightarrow> [])
      in if lines \<noteq> [] then js_join paragraphBreak lines
         else (case getProp p ''content'' of JStr c \<Rightarrow> c | _ \<Rightarrow> []))"

text \<open>
  The accumulator of \<^verbatim>\<open>parseHistoryItems\<close>: the array \<^verbatim>\<open>items\<close> and the set
  \<^verbatim>\<open>seen\<close> of signatures.
\<close>

type_synonym parse_state = "TimelineItem list \<times> string set"

definition signatureFor :: "TimelineItem \<Rightarrow> string option \<Rightarrow> string" where
  "signatureFor it textOverride =
     js_join ''::''
       [ (case item_index it of Some i \<Rightarrow> dec_int i | None \<Rightarrow> []),
         kindName (kind it),
         (case subkind it of Some sk \<Rightarrow> sk | None \<Rightarrow> []),
         joinElem (js_coalesce (title it) (JStr [])),
         (case textOverride of
            Some t \<Rightarrow> t
          | None \<Rightarrow> (case item_text it of Some t \<Rightarrow> t | None \<Rightarrow> [])),
         joinElem (js_coalesce (imageUrl it) (JStr [])) ]"

definition pushUnique :: "TimelineItem \<Rightarrow> parse_state \<Rightarrow> parse_state" where
  "pushUnique it st =
     (let signature = signatureFor it None
      in if signature \<in> snd st then st
         else (fst st @ [it], insert signature (snd st)))"

text \<open>
  The object literal most branches push: \<^verbatim>\<open>{ id, kind, subkind, title, text, index,
  eventKey }\<close>, with no \<^verbatim>\<open>meta\<close>, \<^verbatim>\<open>imageUrl\<close> or \<^verbatim>\<open>origin\<close>.
\<close>

definition entryItem ::
  "string \<Rightarrow> TimelineKind \<Rightarrow> string \<Rightarrow> json \<Rightarrow> string \<Rightarrow> int option \<Rightarrow> string option
     \<Rightarrow> TimelineItem" where
  "entryItem ident k sk ttl txt index key =
     \<lparr> item_id = ident, kind = k, subkind = Some sk, title = ttl, item_text = Some txt,
       meta = None, imageUrl = JUndefined, item_index = index, eventKey = key,
       origin = None \<rparr>"

text \<open>\<^verbatim>\<open>msgType.replace(/_/g, " ")\<close>.\<close>

definition underscoresToSpaces :: "string \<Rightarrow> string" where
  "underscoresToSpaces s = map (\<lambda>c. if c = CHR ''_'' then CHR '' '' else c) s"

text \<open>
  The reasoning branch: the text is appended to the last item when that is a reasoning
  item of the same index, whose signature is replaced in \<^verbatim>\<open>seen\<close>.
\<close>

definition pushReasoning ::
  "string \<Rightarrow> int option \<Rightarrow> string option \<Rightarrow> parse_state \<Rightarrow> parse_state" where
  "pushReasoning nextText index key st =
     (let its = fst st
      in if its \<noteq> [] \<and> kind (last its) = Assistant
              \<and> subkind (last its) = Some ''reasoning'' \<and> item_index (last its) = index
         then
           let prevText = (case item_text (last its) of Some t \<Rightarrow> t | None \<Rightarrow> []);
               prevSignature = signatureFor (last its) (Some prevText);
               nextValue = prevText @ nextText;
               updated = (last its)\<lparr> item_text := Some nextValue \<rparr>
           in (butlast its @ [updated],
               insert (signatureFor updated (Some nextValue)) (snd st - {prevSignature}))
         else
           pushUnique
             (entryItem (makeId index ''reasoning'') Assistant ''reasoning'' (JStr ''Reasoning'')
                nextText index key) st)"

text \<open>
  The dispatch on \<^verbatim>\<open>msgType\<close> inside \<^verbatim>\<open>if (entry.type === "event") { ... }\<close>. Every
  branch but the reasoning one pushes one object literal \<^verbatim>\<open>{ id: makeId(index, suffix),
  kind, subkind, title, text, meta?, index, eventKey }\<close> and returns; \<open>eventBranch\<close> gives
  the suffix, kind, subkind, title, text and meta of the branch taken, the text of a
  reasoning event, or \<open>NoEntry\<close> when no branch is taken or the reasoning text is empty.
\<close>

datatype EventBranch =
    NoEntry
  | Entry string TimelineKind string json string "string option"
  | ReasoningText string

definition eventBranch :: "(json \<Rightarrow> string) \<Rightarrow> json \<Rightarrow> EventBranch" where
  "eventBranch stringify msg =
     (let msgType = getProp msg ''type''
      in if \<not> truthy msgType then NoEntry
      else if msgType = JStr ''user_message'' then
        Entry ''user'' User ''message'' (JStr ''You'')
          (asText stringify (getProp msg ''message'')) None
      else if msgType = JStr ''agent_message'' then
        Entry ''assistant'' Assistant ''message'' (JStr ''Assistant'')
          (asText stringify (getProp msg ''message'')) None
      else if msgType = JStr ''task_started'' \<or> msgType = JStr ''task_complete''
              \<or> msgType = JStr ''turn_aborted'' then
        Entry ''task'' System ''message'' (JStr (underscoresToSpaces (js_String msgType)))
          (asText stringify (js_or (js_or (getProp msg ''message'') (getProp msg ''reason'')) msg))
          None
      else if msgType = JStr ''agent_reasoning'' \<or> msgType = JStr ''agent_reasoning_delta'' then
        (let nextText = asText stringify (js_or (getProp msg ''text'') (getProp msg ''delta''))
         in if nextText = [] then NoEntry else ReasoningText nextText)
      else if msgType = JStr ''exec_command_begin'' then
        Entry ''exec-start'' Exec ''exec-begin'' (JStr ''Exec'')
          (case getProp msg ''command'' of
             JArr command \<Rightarrow> js_join '' '' (map joinElem command)
           | c \<Rightarrow> asText stringify c)
          (Some ''running'')
      else if msgType = JStr ''exec_command_output_delta'' then
        Entry ''exec-output'' Exec ''exec-output'' (JStr ''Exec output'')
          (asText stringify (getProp msg ''chunk''))
          (Some (asText stringify (getProp msg ''stream'')))
      else if msgType = JStr ''exec_command_end'' then
        Entry ''exec-end'' Exec ''exec-end'' (JStr ''Exec result'')
          (asText stringify (js_or (getProp msg ''stderr'') (getProp msg ''stdout'')))
          (Some (''exit '' @ js_String (js_coalesce (getProp msg ''exit_code'') (JStr ''?''))))
      else if msgType = JStr ''turn_diff'' then
        Entry ''diff'' Diff ''diff'' (JStr ''Diff'')
          (asText stringify (getProp msg ''unified_diff'')) None
      else if msgType = JStr ''patch_apply_begin'' \<or> msgType = JStr ''patch_apply_end'' then
        Entry ''patch'' Diff ''diff''
          (if msgType = JStr ''patch_apply_begin'' then JStr ''Apply patch''
           else JStr ''Patch applied'')
          (asText stringify (js_or (js_or (getProp msg ''path'') (getProp msg ''message'')) msg))
          None
      else if msgType = JStr ''background_event'' then
        Entry ''background'' System ''message'' (JStr ''Background event'')
          (asText stringify (js_or (js_or (getProp msg ''message'') (getProp msg ''event'')) msg))
          None
      else if msgType = JStr ''web_search_begin'' \<or> msgType = JStr ''web_search_complete'' then
        Entry ''web'' Tool ''tool-web''
          (if msgType = JStr ''web_search_begin'' then JStr ''Web search''
           else JStr ''Web search complete'')
          (asText stringify (getProp msg ''query'')) None
      else if msgType = JStr ''browser_screenshot_update'' then
        Entry ''browser'' Tool ''tool-browser'' (JStr ''Browser screenshot'')
          (asText stringify (js_or (getProp msg ''url'') (getProp msg ''screenshot_path''))) None
      else if msgType = JStr ''mcp_tool_call_begin'' \<or> msgType = JStr ''mcp_tool_call_end'' then
        (let invocation = js_or (getProp msg ''invocation'') (JObj [])
         in Entry ''mcp'' Tool ''tool-mcp''
              (if msgType = JStr ''mcp_tool_call_begin'' then JStr ''MCP tool''
               else JStr ''MCP tool finished'')
              (js_String (js_or (getProp invocation ''server'') (JStr [])) @ ''.'' @
               js_String (js_or (getProp invocation ''tool'') (JStr [])))
              None)
      else if msgType = JStr ''custom_tool_call_begin'' \<or> msgType = JStr ''custom_tool_call_update''
              \<or> msgType = JStr ''custom_tool_call_end'' then
        Entry ''tool'' Tool ''tool-custom'' (JStr (underscoresToSpaces (js_String msgType)))
          (asText stringify (getProp msg ''tool_name'')) None
      else NoEntry)"

text \<open>The body of \<^verbatim>\<open>if (entry.type === "event") { ... }\<close> for one line.\<close>

definition parseEventEntry ::
  "(json \<Rightarrow> string) \<Rightarrow> int option \<Rightarrow> json \<Rightarrow> parse_state \<Rightarrow> parse_state" where
  "parseEventEntry stringify index entryPayload st =
     (let p = js_or entryPayload (JObj []);
          key = eventKeyFromPayload entryPayload;
          msg = js_or (js_or (js_or (getProp p ''msg'') (getProp p ''message''))
                        (getProp p ''event'')) p
      in if \<not> truthy msg \<or> \<not> typeofObject msg then st
         else (case eventBranch stringify msg of
                 NoEntry \<Rightarrow> st
               | Entry sfx k sk ttl txt mt \<Rightarrow>
                   pushUnique
                     ((entryItem (makeId index sfx) k sk ttl txt index key)\<lparr> meta := mt \<rparr>) st
               | ReasoningText nextText \<Rightarrow> pushReasoning nextText index key st))"

text \<open>
  The image items of a message: \<^verbatim>\<open>content.forEach((segment, idx) => ...)\<close>, with
  \<open>idx\<close> counted from the given position.
\<close>

fun pushImages ::
  "int option \<Rightarrow> TimelineKind \<Rightarrow> nat \<Rightarrow> json list \<Rightarrow> parse_state \<Rightarrow> parse_state" where
  "pushImages index k idx [] st = st"
| "pushImages index k idx (segment # rest) st =
     pushImages index k (Suc idx) rest
       (if getProp segment ''type'' = JStr ''output_image''
           \<or> getProp segment ''type'' = JStr ''input_image''
        then pushUnique
               \<lparr> item_id = makeId index (''img-'' @ dec_nat idx), kind = k,
                 subkind = Some ''image'',
                 title = (if k = Assistant then JStr ''Assistant image'' else JStr ''Image''),
                 item_text = None, meta = None,
                 imageUrl = js_or (getProp segment ''image_url'') (getProp segment ''url''),
                 item_index = index, eventKey = None, origin = None \<rparr> st
        else st)"

text \<open>
  The body of \<^verbatim>\<open>if (entry.type === "response_item") { ... }\<close>. Reading
  \<^verbatim>\<open>segment.type\<close> of a \<^verbatim>\<open>null\<close> segment throws a \<^verbatim>\<open>TypeError\<close>, in the
  \<^verbatim>\<open>filter\<close> that runs before anything is pushed for the line.
\<close>

definition parseResponseItem ::
  "(json \<Rightarrow> string) \<Rightarrow> int option \<Rightarrow> json \<Rightarrow> parse_state \<Rightarrow> js_error + parse_state" where
  "parseResponseItem stringify index entryPayload st =
     (let p = js_or entryPayload (JObj []);
          itemType = getProp p ''type''
      in if itemType = JStr ''reasoning'' then
           Inr (pushUnique
             ((entryItem (makeId index ''reasoning'') Assistant ''reasoning'' (JStr ''Reasoning'')
                 (if summarizePayload p \<noteq> [] then summarizePayload p else asText stringify p)
                 index None)) st)
         else if itemType \<noteq> JStr ''message'' then
           Inr (pushUnique
             (entryItem (makeId index ''tool'') Tool
                (if itemType = JStr ''function_call'' then ''tool-call'' else ''tool-output'')
                (js_or (js_or (getProp p ''name'') (getProp p ''type'')) (JStr ''Tool''))
                (asText stringify (js_or (getProp p ''arguments'') (getProp p ''output'')))
                index None) st)
         else
           let k = roleToKind (getProp p ''role'');
               content = (case getProp p ''content'' of JArr segments \<Rightarrow> segments | _ \<Rightarrow> [])
           in if list_ex nullish content then Inl TypeError
              else
                let textSegments =
                      filter (\<lambda>t. t \<noteq> [])
                        (map (\<lambda>segment. asText stringify
                                (js_or (getProp segment ''text'') (getProp segment ''refusal'')))
                          (filter (\<lambda>segment. getProp segment ''type'' = JStr ''output_text''
                                      \<or> getProp segment ''type'' = JStr ''input_text'') content));
                    st1 = (if textSegments \<noteq> [] then
                             pushUnique
                               (entryItem (makeId index ''msg'') k ''message''
                                  (if k = Assistant then JStr ''Assistant''
                                   else if k = User then JStr ''You'' else JStr ''System'')
                                  (js_join paragraphBreak textSegments) index None) st
                           else st)
                in Inr (pushImages index k 0 content st1))"

definition parseLine ::
  "(json \<Rightarrow> string) \<Rightarrow> HistoryLine \<Rightarrow> parse_state \<Rightarrow> js_error + parse_state" where
  "parseLine stringify line st =
     (let entry = extractEntry line; index = line_index line
      in if entry_type entry = ''event'' then
           Inr (parseEventEntry stringify index (payload entry) st)
         else if entry_type entry = ''response_item'' then
           parseResponseItem stringify index (payload entry) st
         else Inr st)"

text \<open>\<^verbatim>\<open>lines.forEach(...)\<close>: a throw ends the loop.\<close>

fun parseLines ::
  "(json \<Rightarrow> string) \<Rightarrow> HistoryLine list \<Rightarrow> parse_state \<Rightarrow> js_error + parse_state" where
  "parseLines stringify [] st = Inr st"
| "parseLines stringify (line # rest) st =
     (case parseLine stringify line st of
        Inl e \<Rightarrow> Inl e
      | Inr st' \<Rightarrow> parseLines stringify rest st')"

definition parseHistoryItems ::
  "(json \<Rightarrow> string) \<Rightarrow> HistoryLine list \<Rightarrow> js_error + TimelineItem list" where
  "parseHistoryItems stringify lines =
     (case parseLines stringify lines ([], {}) of
        Inl e \<Rightarrow> Inl e
      | Inr st \<Rightarrow> Inr (fst st))"

section \<open>Activity inference\<close>

text \<open>Truthiness of a \<^verbatim>\<open>string | null\<close> reference.\<close>

fun truthyStr :: "string option \<Rightarrow> bool" where
  "truthyStr None = False"
| "truthyStr (Some v) = (v \<noteq> [])"

text \<open>
  The four references the activity functions read and write: \<^verbatim>\<open>taskActiveRef\<close>,
  \<^verbatim>\<open>activityLabelRef\<close>, \<^verbatim>\<open>activeExecCountRef\<close> and \<^verbatim>\<open>activeToolCountRef\<close>.
\<close>

record Activity =
  taskActive :: bool
  activityLabel :: "string option"
  activeExecCount :: int
  activeToolCount :: int

definition activityOf :: "state \<Rightarrow> Activity" where
  "activityOf s =
     \<lparr> taskActive = taskActiveRef s, activityLabel = activityLabelRef s,
       activeExecCount = activeExecCountRef s, activeToolCount = activeToolCountRef s \<rparr>"

definition setActivity :: "Activity \<Rightarrow> state \<Rightarrow> state" where
  "setActivity a s =
     s\<lparr> taskActiveRef := taskActive a, activityLabelRef := activityLabel a,
        activeExecCountRef := activeExecCount a, activeToolCountRef := activeToolCount a \<rparr>"

definition resetActivity :: Activity where
  "resetActivity =
     \<lparr> taskActive = False, activityLabel = None, activeExecCount = 0, activeToolCount = 0 \<rparr>"

definition noteActivity :: "string \<Rightarrow> Activity \<Rightarrow> Activity" where
  "noteActivity label a = a\<lparr> activityLabel := Some label, taskActive := True \<rparr>"

definition settleActivity :: "Activity \<Rightarrow> Activity" where
  "settleActivity a =
     (if activeExecCount a > 0 then a\<lparr> activityLabel := Some ''Running command'' \<rparr>
      else if activeToolCount a > 0 then
        a\<lparr> activityLabel :=
             (case activityLabel a of Some l \<Rightarrow> Some l | None \<Rightarrow> Some ''Using tools'') \<rparr>
      else if \<not> taskActive a then a\<lparr> activityLabel := None \<rparr>
      else a)"

definition updateActivityFromEvent :: "string \<Rightarrow> Activity \<Rightarrow> Activity" where
  "updateActivityFromEvent msgType a =
     (if msgType = ''task_started'' then noteActivity ''Thinking'' a
      else if msgType = ''task_complete'' \<or> msgType = ''turn_aborted'' then
        settleActivity (a\<lparr> taskActive := False \<rparr>)
      else if msgType = ''agent_reasoning_delta'' \<or> msgType = ''agent_reasoning'' then
        noteActivity ''Thinking'' a
      else if msgType = ''agent_message_delta'' then noteActivity ''Responding'' a
      else if msgType = ''agent_message'' then
        (if taskActive a then a\<lparr> activityLabel := Some ''Responding'' \<rparr> else a)
      else if msgType = ''exec_command_begin'' then
        a\<lparr> activeExecCount := activeExecCount a + 1,
           activityLabel := Some ''Running command'' \<rparr>
      else if msgType = ''exec_command_end'' then
        settleActivity (a\<lparr> activeExecCount := max 0 (activeExecCount a - 1) \<rparr>)
      else if msgType = ''custom_tool_call_begin'' \<or> msgType = ''mcp_tool_call_begin''
              \<or> msgType = ''web_search_begin'' then
        a\<lparr> activeToolCount := activeToolCount a + 1,
           activityLabel := Some ''Using tools'' \<rparr>
      else if msgType = ''custom_tool_call_end'' \<or> msgType = ''mcp_tool_call_end''
              \<or> msgType = ''web_search_complete'' then
        settleActivity (a\<lparr> activeToolCount := max 0 (activeToolCount a - 1) \<rparr>)
      else if msgType = ''browser_screenshot_update'' then
        (if \<not> truthyStr (activityLabel a) then a\<lparr> activityLabel := Some ''Using browser'' \<rparr>
         else a)
      else a)"

text \<open>The computed \<^verbatim>\<open>composerStatus\<close>, the label shown to the user.\<close>

definition composerStatus :: "state \<Rightarrow> string option" where
  "composerStatus s =
     (if sending s then Some ''Sending''
      else if sessionLoading s \<and> activeId s \<noteq> None \<and> activeId s \<noteq> Some [] then
        Some ''Resuming session''
      else if loading s \<and> activeId s \<noteq> None \<and> activeId s \<noteq> Some [] then
        Some ''Loading history''
      else if activeExecCountRef s > 0 then Some ''Running command''
      else if activeToolCountRef s > 0 then
        (case activityLabelRef s of Some l \<Rightarrow> Some l | None \<Rightarrow> Some ''Using tools'')
      else if taskActiveRef s then
        (case activityLabelRef s of Some l \<Rightarrow> Some l | None \<Rightarrow> Some ''Thinking'')
      else if status s \<noteq> [] \<and> status s \<noteq> ''Live'' \<and> status s \<noteq> ''Ready'' then
        Some (status s)
      else None)"

text \<open>
  The states the activity machine passes through when the event types of a list are fed
  to it one after the other.
\<close>

fun activityRun :: "Activity \<Rightarrow> string list \<Rightarrow> Activity list" where
  "activityRun s [] = []"
| "activityRun s (t # ts) =
     (let s' = updateActivityFromEvent t s in s' # activityRun s' ts)"

section \<open>History tracking and deduplication\<close>

text \<open>\<^verbatim>\<open>Array.prototype.findIndex\<close>, with \<open>None\<close> for \<open>-1\<close>.\<close>

fun findIndex :: "('a \<Rightarrow> bool) \<Rightarrow> 'a list \<Rightarrow> nat option" where
  "findIndex P [] = None"
| "findIndex P (x # xs) = (if P x then Some 0 else map_option Suc (findIndex P xs))"

definition messageSignatureForItem :: "TimelineItem \<Rightarrow> string" where
  "messageSignatureForItem it =
     js_join ''::''
       [ kindName (kind it),
         (case subkind it of Some sk \<Rightarrow> sk | None \<Rightarrow> []),
         joinElem (js_coalesce (title it) (JStr [])),
         (case item_text it of Some t \<Rightarrow> t | None \<Rightarrow> []),
         joinElem (js_coalesce (imageUrl it) (JStr [])) ]"

definition resetHistoryTracking :: "state \<Rightarrow> state" where
  "resetHistoryTracking s = s\<lparr> seenLineIndexRef := {}, seenEventRef := {} \<rparr>"

text \<open>
  The two sets \<^verbatim>\<open>registerHistoryLines\<close> reads and writes:
  \<^verbatim>\<open>seenLineIndexRef\<close> and \<^verbatim>\<open>seenEventRef\<close>.
\<close>

record Tracking =
  seenLineIndex :: "int set"
  seenEvent :: "string set"

definition trackingOf :: "state \<Rightarrow> Tracking" where
  "trackingOf s = \<lparr> seenLineIndex = seenLineIndexRef s, seenEvent = seenEventRef s \<rparr>"

definition setTracking :: "Tracking \<Rightarrow> state \<Rightarrow> state" where
  "setTracking tr s = s\<lparr> seenLineIndexRef := seenLineIndex tr, seenEventRef := seenEvent tr \<rparr>"

definition markLineIndex :: "int option \<Rightarrow> Tracking \<Rightarrow> Tracking" where
  "markLineIndex index tr =
     (case index of
        Some i \<Rightarrow> tr\<lparr> seenLineIndex := insert i (seenLineIndex tr) \<rparr>
      | None \<Rightarrow> tr)"

text \<open>
  One round of the \<^verbatim>\<open>forEach\<close> of \<^verbatim>\<open>registerHistoryLines\<close>: whether the line is
  pushed to \<^verbatim>\<open>fresh\<close>, and the two sets after it.
\<close>

definition registerLine :: "HistoryLine \<Rightarrow> bool \<Rightarrow> Tracking \<Rightarrow> bool \<times> Tracking" where
  "registerLine line skipAgentMessages tr =
     (let index = line_index line
      in if (case index of Some i \<Rightarrow> i \<in> seenLineIndex tr | None \<Rightarrow> False) then (False, tr)
      else
        let entry = extractEntry line
        in if entry_type entry = ''event'' then
             let p = payload entry;
                 msg = js_or (js_or (getProp p ''msg'') (getProp p ''message'')) (getProp p ''event'');
                 msgType = getProp msg ''type'';
                 tr1 = (case eventKeyFromPayload p of
                          Some key \<Rightarrow> tr\<lparr> seenEvent := insert key (seenEvent tr) \<rparr>
                        | None \<Rightarrow> tr)
             in if skipAgentMessages \<and> msgType = JStr ''agent_message''
                then (False, markLineIndex index tr1)
                else (True, markLineIndex index tr1)
           else (True, markLineIndex index tr))"

fun registerHistoryLines ::
  "HistoryLine list \<Rightarrow> bool \<Rightarrow> Tracking \<Rightarrow> HistoryLine list \<times> Tracking" where
  "registerHistoryLines [] skipAgentMessages tr = ([], tr)"
| "registerHistoryLines (line # rest) skipAgentMessages tr =
     (let r = registerLine line skipAgentMessages tr;
          rs = registerHistoryLines rest skipAgentMessages (snd r)
      in (if fst r then line # fst rs else fst rs, snd rs))"

definition hasAssistantResponseItem :: "HistoryLine list \<Rightarrow> bool" where
  "hasAssistantResponseItem lines =
     list_ex (\<lambda>line.
        let entry = extractEntry line
        in if entry_type entry \<noteq> ''response_item'' then False
           else getProp (payload entry) ''type'' = JStr ''message''
                \<and> getProp (payload entry) ''role'' = JStr ''assistant'') lines"

definition dropEventDuplicates :: "TimelineItem list \<Rightarrow> state \<Rightarrow> state" where
  "dropEventDuplicates historyItems s =
     (if items s = [] \<or> historyItems = [] then s
      else
        let historyEventKeys = set (filter truthyStr (map eventKey historyItems));
            historyMessageSignatures =
              set (map messageSignatureForItem
                     (filter (\<lambda>it. subkind it = Some ''message'') historyItems))
        in s\<lparr> items :=
               filter (\<lambda>it.
                  if origin it \<noteq> Some FromEvent then True
                  else if truthyStr (eventKey it) \<and> eventKey it \<in> historyEventKeys then False
                  else if subkind it = Some ''message''
                          \<and> messageSignatureForItem it \<in> historyMessageSignatures then False
                  else True) (items s) \<rparr>)"

section \<open>History requests\<close>

definition messageCountFor :: "string option \<Rightarrow> state \<Rightarrow> int option" where
  "messageCountFor ident s =
     (if \<not> truthyStr ident then None
      else (case find (\<lambda>session. Some (conversation_id session) = ident) (sessions s) of
              None \<Rightarrow> None
            | Some match \<Rightarrow> message_count match))"

definition historyPrimeLimitFor :: "string option \<Rightarrow> state \<Rightarrow> int" where
  "historyPrimeLimitFor ident s =
     (case messageCountFor ident s of
        Some cnt \<Rightarrow>
          if cnt \<ge> HISTORY_LARGE_SESSION_THRESHOLD then HISTORY_LARGE_PRIME_LIMIT
          else HISTORY_PRIME_LIMIT
      | None \<Rightarrow> HISTORY_PRIME_LIMIT)"

definition shouldAutoFillHistory :: "string option \<Rightarrow> state \<Rightarrow> bool" where
  "shouldAutoFillHistory ident s =
     (case messageCountFor ident s of
        None \<Rightarrow> True
      | Some cnt \<Rightarrow> cnt \<le> HISTORY_AUTO_FILL_THRESHOLD)"

definition enqueueHistoryRequest :: "HistoryRequestPayload \<Rightarrow> state \<Rightarrow> state" where
  "enqueueHistoryRequest request s =
     s\<lparr> pendingHistoryRequests := pendingHistoryRequests s @ [request] \<rparr>"

definition buildHistoryPayload :: "HistoryRequestPayload \<Rightarrow> state \<Rightarrow> HistoryRequestEnvelope" where
  "buildHistoryPayload request s =
     \<lparr> env_request = request,
       env_rollout =
         (if truthyStr (runtimeId s) \<and> truthyStr (activeId s) \<and> runtimeId s \<noteq> activeId s
          then activeId s else None) \<rparr>"

text \<open>
  \<^verbatim>\<open>flushPendingHistoryRequests\<close>: the queue goes to the history socket when the mode is
  \<open>Initial\<close> and that socket is open, else to the stream socket when it is open, and
  stays where it is when no socket is ready.
\<close>

definition flushPendingHistoryRequests :: "state \<Rightarrow> state" where
  "flushPendingHistoryRequests s =
     (if pendingHistoryRequests s = [] then s
      else if historyWsModeRef s = Initial \<and> historyWsRef s = Some OPEN then
        s\<lparr> pendingHistoryRequests := [],
           historySent := historySent s
             @ map (\<lambda>request. buildHistoryPayload request s) (pendingHistoryRequests s) \<rparr>
      else if wsRef s = Some OPEN then
        s\<lparr> pendingHistoryRequests := [],
           streamSent := streamSent s
             @ map (\<lambda>request. buildHistoryPayload request s) (pendingHistoryRequests s) \<rparr>
      else s)"

definition sendHistoryRequest :: "HistoryRequestPayload \<Rightarrow> state \<Rightarrow> state" where
  "sendHistoryRequest request s =
     (if historyWsModeRef s = Initial \<and> historyWsRef s = Some OPEN then
        s\<lparr> historySent := historySent s @ [buildHistoryPayload request s] \<rparr>
      else if wsRef s = Some OPEN then
        s\<lparr> streamSent := streamSent s @ [buildHistoryPayload request s] \<rparr>
      else enqueueHistoryRequest request s)"

text \<open>
  \<^verbatim>\<open>window.setTimeout(cb, ms)\<close> adds a pending timer under a fresh handle and returns
  the handle; \<^verbatim>\<open>window.clearTimeout(h)\<close> removes the timer of that handle.
\<close>

definition setTimeout :: "TimerCallback \<Rightarrow> nat \<Rightarrow> state \<Rightarrow> nat \<times> state" where
  "setTimeout cb ms s =
     (nextTimerHandle s,
      s\<lparr> timers := timers s @ [\<lparr> handle = nextTimerHandle s, delay = ms, callback = cb \<rparr>],
         nextTimerHandle := Suc (nextTimerHandle s) \<rparr>)"

definition clearTimeout :: "nat \<Rightarrow> state \<Rightarrow> state" where
  "clearTimeout h s = s\<lparr> timers := filter (\<lambda>t. handle t \<noteq> h) (timers s) \<rparr>"

definition cancelPrimeHistory :: "state \<Rightarrow> state" where
  "cancelPrimeHistory s =
     (case primeHistoryTimerRef s of
        Some h \<Rightarrow> (clearTimeout h s)\<lparr> primeHistoryTimerRef := None \<rparr>
      | None \<Rightarrow> s)"

definition cancelPrimeFill :: "state \<Rightarrow> state" where
  "cancelPrimeFill s =
     (case primeFillTimerRef s of
        Some h \<Rightarrow> (clearTimeout h s)\<lparr> primeFillTimerRef := None \<rparr>
      | None \<Rightarrow> s)
       \<lparr> primeFillInFlightRef := False, primeFillExpectedBeforeRef := None \<rparr>"

section \<open>Merging a history response\<close>

text \<open>
  How a handler ends: it returns, or an exception leaves it with the state as it was at
  the throw (the \<^verbatim>\<open>try\<close>/\<^verbatim>\<open>catch\<close> is in the socket's \<^verbatim>\<open>onmessage\<close>).
\<close>

datatype 'a outcome = Completed 'a | Threw js_error 'a

fun outcomeState :: "'a outcome \<Rightarrow> 'a" where
  "outcomeState (Completed s) = s"
| "outcomeState (Threw e s) = s"

text \<open>The branch \<^verbatim>\<open>message.anchor === "head"\<close> of \<^verbatim>\<open>handleHistoryChunk\<close>.\<close>

definition mergeHead :: "HistoryChunk \<Rightarrow> TimelineItem list \<Rightarrow> state \<Rightarrow> state" where
  "mergeHead message historyItems s =
     (cancelPrimeFill s)
       \<lparr> reasoningIdRef := None, items := historyItems, historyMode := Head,
         hasMoreAfter := truncated message, hasMoreBefore := False,
         historyStart := start_index message, historyEnd := end_index message \<rparr>"

text \<open>
  The branch \<^verbatim>\<open>message.anchor === "tail"\<close>: the list is replaced, and a truncated
  response short of the target arms the fill timer (200 ms), whose callback requests the
  remaining count before the start index.
\<close>

definition mergeTail :: "HistoryChunk \<Rightarrow> TimelineItem list \<Rightarrow> state \<Rightarrow> state" where
  "mergeTail message historyItems s =
     (let s1 = cancelPrimeHistory
                 ((cancelPrimeFill s)
                    \<lparr> reasoningIdRef := None, items := historyItems, historyMode := Tail,
                      hasMoreBefore := truncated message, hasMoreAfter := False,
                      historyStart := start_index message, historyEnd := end_index message \<rparr>);
          canAutoFill = shouldAutoFillHistory (activeId s1) s1
      in if \<not> primeFillInFlightRef s1 \<and> canAutoFill \<and> truncated message
            \<and> int (length historyItems) < HISTORY_TARGET_LIMIT
            \<and> start_index message \<noteq> None
         then
           let s2 = s1\<lparr> primeFillInFlightRef := True,
                        primeFillExpectedBeforeRef := start_index message \<rparr>;
               remaining = HISTORY_TARGET_LIMIT - int (length historyItems);
               s3 = (case primeFillTimerRef s2 of Some h \<Rightarrow> clearTimeout h s2 | None \<Rightarrow> s2);
               armed = setTimeout
                         (PrimeFillCallback
                            \<lparr> req_before = start_index message, req_after = None,
                              req_anchor = None, req_limit = Some remaining \<rparr>) 200 s3
           in (snd armed)\<lparr> primeFillTimerRef := Some (fst armed) \<rparr>
         else s1)"

text \<open>The branch for \<^verbatim>\<open>message.before\<close>: the new items go in front.\<close>

definition mergeBefore :: "HistoryChunk \<Rightarrow> TimelineItem list \<Rightarrow> state \<Rightarrow> state" where
  "mergeBefore message historyItems s =
     (let s1 = (if primeFillExpectedBeforeRef s = chunk_before message
                then s\<lparr> primeFillInFlightRef := False, primeFillExpectedBeforeRef := None \<rparr>
                else s);
          s2 = dropEventDuplicates historyItems s1
      in s2\<lparr> items := historyItems @ items s2, historyMode := Tail,
             hasMoreBefore := truncated message \<rparr>)"

text \<open>
  The branch for \<^verbatim>\<open>message.after\<close>: the new items go in front of the first item
  whose origin is not the history, or at the end.
\<close>

definition mergeAfter :: "HistoryChunk \<Rightarrow> TimelineItem list \<Rightarrow> state \<Rightarrow> state" where
  "mergeAfter message historyItems s =
     (let s2 = dropEventDuplicates historyItems s
      in (case findIndex (\<lambda>it. origin it \<noteq> Some FromHistory) (items s2) of
            None \<Rightarrow> s2\<lparr> items := items s2 @ historyItems \<rparr>
          | Some liveStart \<Rightarrow>
              s2\<lparr> items := take liveStart (items s2) @ historyItems @ drop liveStart (items s2) \<rparr>)
         \<lparr> historyMode := Head, hasMoreAfter := truncated message \<rparr>)"

text \<open>
  The end of \<^verbatim>\<open>handleHistoryChunk\<close>, one field for each assignment: the covered
  range of a response without anchor, the next live index and the last index.
\<close>

definition extendRange :: "HistoryChunk \<Rightarrow> state \<Rightarrow> state" where
  "extendRange message s =
     (let anchored = (chunk_anchor message = Some ''head'' \<or> chunk_anchor message = Some ''tail'');
          newStart = (case start_index message of
                        Some startIndex \<Rightarrow>
                          if anchored then historyStart s
                          else (case historyStart s of
                                  None \<Rightarrow> Some startIndex
                                | Some h \<Rightarrow> Some (min h startIndex))
                      | None \<Rightarrow> historyStart s);
          newEnd = (case end_index message of
                      Some endIndex \<Rightarrow>
                        if anchored then historyEnd s
                        else (case historyEnd s of
                                None \<Rightarrow> Some endIndex
                              | Some h \<Rightarrow> Some (max h endIndex))
                    | None \<Rightarrow> historyEnd s);
          newLive = (case end_index message of
                       Some endIndex \<Rightarrow>
                         if (case liveIndexRef s of None \<Rightarrow> True | Some live \<Rightarrow> live \<le> endIndex)
                         then Some (endIndex + 1) else liveIndexRef s
                     | None \<Rightarrow> liveIndexRef s);
          newLast = (case end_index message of
                       Some endIndex \<Rightarrow>
                         (case lastIndexRef s of
                            None \<Rightarrow> Some endIndex
                          | Some l \<Rightarrow> Some (max l endIndex))
                     | None \<Rightarrow> lastIndexRef s)
      in s\<lparr> historyStart := newStart, historyEnd := newEnd, liveIndexRef := newLive,
            lastIndexRef := newLast \<rparr>)"

definition handleHistoryChunk ::
  "(json \<Rightarrow> string) \<Rightarrow> HistoryChunk \<Rightarrow> state \<Rightarrow> state outcome" where
  "handleHistoryChunk stringify message s =
     (let s1 = s\<lparr> primeHistoryInFlightRef := False \<rparr>;
          s2 = (if chunk_anchor message = Some ''head'' \<or> chunk_anchor message = Some ''tail''
                then resetHistoryTracking s1 else s1);
          rawLines = chunk_items message;
          skipAgentMessages = hasAssistantResponseItem rawLines;
          registered = registerHistoryLines rawLines skipAgentMessages (trackingOf s2);
          freshLines = fst registered;
          s3 = setTracking (snd registered) s2
      in case parseHistoryItems stringify freshLines of
           Inl e \<Rightarrow> Threw e s3
         | Inr parsed \<Rightarrow>
             let historyItems = map (\<lambda>it. it\<lparr> origin := Some FromHistory \<rparr>) parsed;
                 s4 = (if chunk_anchor message = Some ''head'' then mergeHead message historyItems s3
                       else if chunk_anchor message = Some ''tail'' then
                         mergeTail message historyItems s3
                       else if chunk_before message \<noteq> None then
                         mergeBefore message historyItems s3
                       else if chunk_after message \<noteq> None then
                         mergeAfter message historyItems s3
                       else s3)
             in Completed
                  ((extendRange message s4)
                     \<lparr> loading := False, status := ''Live'', sessionLoading := False \<rparr>))"

section \<open>Live events\<close>

definition extractReasoningText :: "(json \<Rightarrow> string) \<Rightarrow> json \<Rightarrow> string" where
  "extractReasoningText stringify p =
     (let v = js_coalesce
                (js_coalesce (js_coalesce (getProp p ''text'') (getProp p ''delta''))
                   (getProp p ''message''))
                (JStr [])
      in if nullish v then []
         else (case v of JStr t \<Rightarrow> t | _ \<Rightarrow> stringify v))"

text \<open>
  The backward scan of \<^verbatim>\<open>appendReasoningDelta\<close>: the position of the last reasoning
  item, unless an assistant message comes after it.
\<close>

function lastOpenReasoning :: "TimelineItem list \<Rightarrow> nat option" where
  "lastOpenReasoning its =
     (if its = [] then None
      else if kind (last its) = Assistant \<and> subkind (last its) = Some ''reasoning''
        then Some (length its - 1)
      else if kind (last its) = Assistant \<and> subkind (last its) = Some ''message'' then None
      else lastOpenReasoning (butlast its))"
  by pat_completeness auto
termination
  by (relation "measure length") auto

declare lastOpenReasoning.simps [simp del]

text \<open>
  \<^verbatim>\<open>appendReasoningDelta\<close>. \<open>rnd\<close> is the suffix
  \<^verbatim>\<open>Math.random().toString(36).slice(2, 6)\<close> drawn for the id of a new entry.
\<close>

definition appendReasoningDelta ::
  "string \<Rightarrow> string \<Rightarrow> int \<Rightarrow> string option \<Rightarrow> state \<Rightarrow> state" where
  "appendReasoningDelta rnd delta index key s =
     (if delta = [] then s
      else
        let next = items s;
            byId = (if truthyStr (reasoningIdRef s)
                    then findIndex (\<lambda>it. Some (item_id it) = reasoningIdRef s) next
                    else None);
            targetIndex = (case byId of Some i \<Rightarrow> Some i | None \<Rightarrow> lastOpenReasoning next)
        in case targetIndex of
             Some i \<Rightarrow>
               let current = next ! i;
                   updated = current
                     \<lparr> item_text :=
                         Some ((case item_text current of Some t \<Rightarrow> t | None \<Rightarrow> []) @ delta),
                       eventKey := (case eventKey current of Some k \<Rightarrow> Some k | None \<Rightarrow> key),
                       origin := (case origin current of Some v \<Rightarrow> Some v
                                  | None \<Rightarrow> Some FromEvent) \<rparr>
               in s\<lparr> reasoningIdRef := Some (item_id updated), items := next[i := updated] \<rparr>
           | None \<Rightarrow>
               let ident = ''reasoning-'' @ dec_int index @ ''-'' @ rnd
               in s\<lparr> reasoningIdRef := Some ident,
                      items := next @
                        [\<lparr> item_id = ident, kind = Assistant, subkind = Some ''reasoning'',
                           title = JStr ''Reasoning'', item_text = Some delta, meta = None,
                           imageUrl = JUndefined, item_index = Some index, eventKey = key,
                           origin = Some FromEvent \<rparr>] \<rparr>)"

definition appendHistoryLines ::
  "(json \<Rightarrow> string) \<Rightarrow> HistoryLine list \<Rightarrow> state \<Rightarrow> state outcome" where
  "appendHistoryLines stringify lines s =
     (case parseHistoryItems stringify lines of
        Inl e \<Rightarrow> Threw e s
      | Inr parsed \<Rightarrow>
          if parsed \<noteq> [] then
            Completed (s\<lparr> items := items s @ map (\<lambda>it. it\<lparr> origin := Some FromEvent \<rparr>) parsed \<rparr>)
          else Completed s)"

text \<open>
  The index \<^verbatim>\<open>handleEvent\<close> assigns to the next live event:
  \<^verbatim>\<open>Math.max(0, Math.trunc(liveIndexRef.value ?? (historyEnd.value === null ? 0 :
  historyEnd.value + 1)))\<close>.
\<close>

definition nextLiveIndex :: "state \<Rightarrow> int" where
  "nextLiveIndex s =
     (case liveIndexRef s of
        Some live \<Rightarrow> live
      | None \<Rightarrow> (case historyEnd s of None \<Rightarrow> 0 | Some e \<Rightarrow> e + 1))"

definition assignedIndex :: "state \<Rightarrow> int" where
  "assignedIndex s = max 0 (nextLiveIndex s)"

text \<open>
  \<^verbatim>\<open>handleEvent\<close>. \<^verbatim>\<open>updateSessionFromEvent\<close> is left out: it rewrites the time stamp
  and the snippet of the active session's summary, which \<open>SessionSummary\<close> does not carry.
\<close>

definition handleEvent :: "(json \<Rightarrow> string) \<Rightarrow> string \<Rightarrow> json \<Rightarrow> state \<Rightarrow> state outcome" where
  "handleEvent stringify rnd event s =
     (if \<not> truthy event then Completed s
      else
        let key = eventKeyFromPayload event
        in if (case key of Some k \<Rightarrow> k \<in> seenEventRef s | None \<Rightarrow> False) then Completed s
        else
          let s1 = (case key of
                      Some k \<Rightarrow> s\<lparr> seenEventRef := insert k (seenEventRef s) \<rparr>
                    | None \<Rightarrow> s);
              msgType = getProp (getProp event ''msg'') ''type'';
              s2 = (case msgType of
                      JStr t \<Rightarrow>
                        if t \<noteq> [] then setActivity (updateActivityFromEvent t (activityOf s1)) s1
                        else s1
                    | _ \<Rightarrow> s1);
              s3 = (if msgType = JStr ''user_message'' \<or> msgType = JStr ''agent_message''
                    then s2\<lparr> reasoningIdRef := None \<rparr> else s2);
              assigned = assignedIndex s3;
              s4 = s3\<lparr> liveIndexRef := Some (assigned + 1) \<rparr>
          in if msgType = JStr ''agent_reasoning'' \<or> msgType = JStr ''agent_reasoning_delta'' then
               (let delta = extractReasoningText stringify (getProp event ''msg'')
                in if delta \<noteq> [] then Completed (appendReasoningDelta rnd delta assigned key s4)
                   else Completed s4)
             else
               appendHistoryLines stringify
                 [\<lparr> line_index = Some assigned, line_value = None, line_type = ''event'',
                    line_payload = event \<rparr>] s4)"

section \<open>Messages of the sockets\<close>

text \<open>
  The \<^verbatim>\<open>history_chunk\<close> and \<^verbatim>\<open>event\<close> cases of the stream socket's
  \<^verbatim>\<open>onmessage\<close> and the \<^verbatim>\<open>history_chunk\<close> case of the history socket's: a chunk
  on the stream socket is handled only while no history socket is open, and an exception
  of a handler is caught and recorded in \<^verbatim>\<open>error\<close>.
\<close>

datatype Delivery =
    StreamChunk HistoryChunk
  | StreamEvent json string
  | HistoryChannelChunk HistoryChunk

definition caught :: "state outcome \<Rightarrow> state" where
  "caught r = (case r of Completed s \<Rightarrow> s | Threw e s \<Rightarrow> s\<lparr> error := Some (Caught e) \<rparr>)"

definition deliver :: "(json \<Rightarrow> string) \<Rightarrow> Delivery \<Rightarrow> state \<Rightarrow> state" where
  "deliver stringify d s =
     (case d of
        StreamChunk message \<Rightarrow>
          if historyWsRef s \<noteq> Some OPEN then
            (case handleHistoryChunk stringify message s of
               Completed s' \<Rightarrow> s'\<lparr> historyPrimed := True \<rparr>
             | Threw e s' \<Rightarrow> s'\<lparr> error := Some (Caught e) \<rparr>)
          else s
      | StreamEvent event rnd \<Rightarrow> caught (handleEvent stringify rnd event s)
      | HistoryChannelChunk message \<Rightarrow>
          (case handleHistoryChunk stringify message s of
             Completed s' \<Rightarrow> s'\<lparr> historyPrimed := True \<rparr>
           | Threw e s' \<Rightarrow> s'\<lparr> error := Some (Caught e) \<rparr>))"


section \<open>Session activation\<close>

definition closeHistorySocket :: "state \<Rightarrow> state" where
  "closeHistorySocket s =
     (let s1 = s\<lparr> historyWsRef := None, historyHandshakeRef := None \<rparr>
      in if historyWsRef s = None then s1 else s1\<lparr> historyWsBackoffRef := 0 \<rparr>)"

definition setHistoryWsModeForSession :: "string option \<Rightarrow> state \<Rightarrow> state" where
  "setHistoryWsModeForSession nextId s =
     (let s1 = s\<lparr> historyWsModeRef := Stream, historyWsDisabledRef := True,
                   historyInitialSessionRef := None, historyWsBackoffRef := 0 \<rparr>
      in if truthyStr nextId then closeHistorySocket s1 else s1)"

definition requestSessions :: "state \<Rightarrow> state" where
  "requestSessions s =
     (let s1 = s\<lparr> sessionsLoading := True, pendingSessionsRef := True \<rparr>
      in if controlWsRef s1 = Some OPEN then
           s1\<lparr> controlSent := controlSent s1 @ [ListConversations 200],
                pendingSessionsRef := False \<rparr>
         else s1)"

definition scheduleResume :: "string \<Rightarrow> nat \<Rightarrow> state \<Rightarrow> state" where
  "scheduleResume ident ms s =
     snd (setTimeout (ResumeAttempt ident) ms
            (s\<lparr> pendingResumeRef := Some ident, sessionLoading := True,
                status := ''Resuming session'' \<rparr>))"


definition primeHistory :: "state \<Rightarrow> state" where
  "primeHistory s =
     (if historyPrimed s \<or> primeHistoryInFlightRef s then s
      else
        let s1 = s\<lparr> primeHistoryInFlightRef := True, loading := True,
                      status := ''Loading recent history'' \<rparr>
        in sendHistoryRequest
             \<lparr> req_before = None, req_after = None, req_anchor = Some ''tail'',
               req_limit = Some (historyPrimeLimitFor (activeId s1) s1) \<rparr> s1)"

definition schedulePrimeHistory :: "bool \<Rightarrow> state \<Rightarrow> state" where
  "schedulePrimeHistory force s =
     (if \<not> lazyHistory s \<or> historyPrimed s then s
      else if \<not> force \<and> historyWsModeRef s \<noteq> Initial then s
      else if \<not> force \<and> \<not> lazyHistoryReady s then s
      else if primeHistoryTimerRef s \<noteq> None then s
      else
        let armed = setTimeout PrimeHistoryCallback 50 s
        in (snd armed)\<lparr> primeHistoryTimerRef := Some (fst armed) \<rparr>)"

definition activateSession :: "string option \<Rightarrow> state \<Rightarrow> state" where
  "activateSession ident s =
     (if ident = activeId s then s
      else if truthyStr ident \<and> knownSessionIdsRef s \<noteq> {}
              \<and> the ident \<notin> knownSessionIdsRef s \<and> runtimeId s \<noteq> ident
      then requestSessions s
      else
        let s1 = (setHistoryWsModeForSession ident s)
                   \<lparr> lastRequestedSessionRef := ident, reasoningIdRef := None,
                     primeHistoryInFlightRef := False, historyPrimed := False,
                     lazyHistoryReady := False, pendingHistoryRequests := [] \<rparr>;
            s2 = (resetHistoryTracking (setActivity resetActivity (cancelPrimeFill s1)))
                   \<lparr> lastIndexRef := None \<rparr>;
            s3 = (if truthyStr ident then s2\<lparr> lastConversation := ident \<rparr> else s2);
            s4 = s3\<lparr> sessionLoading := truthyStr ident, runtimeId := None, items := [],
                     historyStart := None, historyEnd := None, hasMoreBefore := False,
                     hasMoreAfter := False, historyMode := Tail, liveIndexRef := None,
                     activeId := ident \<rparr>
        in if truthyStr ident then schedulePrimeHistory True (scheduleResume (the ident) 200 s4)
           else s4)"

text \<open>
  \<^verbatim>\<open>loadSession\<close>, which the watcher of \<^verbatim>\<open>activeId\<close> runs with the new id after a
  switch to a session.
\<close>

definition loadSession :: "string \<Rightarrow> state \<Rightarrow> state" where
  "loadSession ident s =
     (if token s = [] then s
      else
        let s1 = s\<lparr> reasoningIdRef := None, primeHistoryInFlightRef := False,
                      historyPrimed := False, lazyHistoryReady := False,
                      pendingHistoryRequests := [] \<rparr>;
            s2 = (setActivity resetActivity (cancelPrimeFill s1))
                   \<lparr> sessionLoading := True, items := [], historyStart := None,
                     historyEnd := None, hasMoreBefore := False, hasMoreAfter := False,
                     liveIndexRef := None, runtimeId := None, lastConversation := Some ident,
                     loading := True, status := ''Resuming session'' \<rparr>
        in scheduleResume ident 400 s2)"

text \<open>The \<^verbatim>\<open>conversation_resumed\<close> case of the control socket's \<^verbatim>\<open>onmessage\<close>.\<close>

record ConversationResumed =
  resumed_conversation_id :: "string option"
  requested_id :: "string option"

definition onConversationResumed :: "ConversationResumed \<Rightarrow> state \<Rightarrow> state" where
  "onConversationResumed message s =
     (if truthyStr (requested_id message) \<and> requested_id message \<noteq> activeId s then s
      else if truthyStr (lastRequestedSessionRef s) \<and> truthyStr (requested_id message)
              \<and> requested_id message \<noteq> lastRequestedSessionRef s then s
      else
        s\<lparr> pendingResumeRef := None,
           runtimeId := (if truthyStr (resumed_conversation_id message)
                         then resumed_conversation_id message else runtimeId s),
           error := None, status := ''Streaming'' \<rparr>)"

section \<open>The history socket\<close>

text \<open>
  The variables of one run of the watcher of \<^verbatim>\<open>historyKey\<close> that its closures share:
  the url, the target id and token, and the mutable \<^verbatim>\<open>closed\<close> and \<^verbatim>\<open>retries\<close>.
\<close>

record HistoryScope =
  scope_url :: string
  scope_targetId :: string
  scope_token :: string
  closed :: bool
  retries :: nat

definition handleHistoryHandshakeFailure :: "state \<Rightarrow> state" where
  "handleHistoryHandshakeFailure s =
     (if \<not> truthyStr (activeId s) \<or> token s = [] then s
      else (case historyHandshakeRef s of
              None \<Rightarrow> s
            | Some hs \<Rightarrow>
                if Some (fst hs) \<noteq> activeId s \<or> snd hs \<noteq> token s then s
                else
                  let s1 = s\<lparr> historyHandshakeRef := None \<rparr>
                  in if \<not> truthyStr (pendingResumeRef s1)
                     then scheduleResume (the (activeId s1)) 0 s1 else s1))"

text \<open>\<^verbatim>\<open>connect\<close> of the history watcher: it arms the 600 ms timer unless disabled.\<close>

definition historyConnect :: "string \<Rightarrow> string \<Rightarrow> state \<Rightarrow> state" where
  "historyConnect targetId tok s =
     (if historyWsDisabledRef s then s
      else
        let s1 = (case historyRetryRef s of
                    Some h \<Rightarrow> (clearTimeout h s)\<lparr> historyRetryRef := None \<rparr>
                  | None \<Rightarrow> s);
            s2 = (case historyConnectTimerRef s1 of
                    Some h \<Rightarrow> clearTimeout h s1
                  | None \<Rightarrow> s1);
            armed = setTimeout (HistoryConnectCallback targetId tok) 600 s2
        in (snd armed)\<lparr> historyConnectTimerRef := Some (fst armed) \<rparr>)"


text \<open>
  \<^verbatim>\<open>ws.onopen\<close> of the history socket (the socket's own flag \<^verbatim>\<open>opened\<close> becomes
  true).
\<close>

definition historyWsOnOpen :: "state \<Rightarrow> state" where
  "historyWsOnOpen s =
     (let s1 = flushPendingHistoryRequests
                 (s\<lparr> historyWsRef := Some OPEN, historyHandshakeRef := None,
                      historyWsAttemptRef := 0, historyWsBackoffRef := 0 \<rparr>)
      in if \<not> lazyHistory s1 then
           sendHistoryRequest
             \<lparr> req_before = None, req_after = None, req_anchor = Some ''tail'',
               req_limit = Some HISTORY_TARGET_LIMIT \<rparr> s1
         else if items s1 = [] then primeHistory s1
         else s1)"

text \<open>
  \<^verbatim>\<open>ws.onclose\<close> of the history socket. \<open>opened\<close> is the flag of the socket that
  closes; the result is the scope (with \<^verbatim>\<open>retries\<close> counted) and the state.
\<close>

definition historyWsOnClose :: "HistoryScope \<Rightarrow> bool \<Rightarrow> state \<Rightarrow> HistoryScope \<times> state" where
  "historyWsOnClose scope opened s =
     (let s1 = s\<lparr> historyWsRef := None \<rparr>;
          s2 = (if \<not> opened then handleHistoryHandshakeFailure s1 else s1);
          shouldRetry = (\<not> closed scope \<and> historyWsUrlRef s2 = Some (scope_url scope))
      in if \<not> shouldRetry then (scope, s2)
         else
           let s3 = (if \<not> opened
                     then s2\<lparr> historyWsAttemptRef := historyWsAttemptRef s2 + 1 \<rparr> else s2)
           in if \<not> opened \<and> historyWsAttemptRef s3 \<ge> 2 then
                (scope, flushPendingHistoryRequests (s3\<lparr> historyWsDisabledRef := True \<rparr>))
              else
                let s4 = s3\<lparr> historyWsBackoffRef := min 6 (historyWsBackoffRef s3 + 1) \<rparr>;
                    scope' = scope\<lparr> retries := retries scope + 1 \<rparr>;
                    maxDelay = (if historyPrimed s4 then 10000 else 2000);
                    baseDelay = (if historyPrimed s4 then 500 else 200);
                    armed = setTimeout
                              (HistoryRetryCallback (scope_targetId scope) (scope_token scope))
                              (min maxDelay (baseDelay * 2 ^ retries scope')) s4
                in (scope', (snd armed)\<lparr> historyRetryRef := Some (fst armed) \<rparr>))"

text \<open>The computed \<^verbatim>\<open>historyKey\<close>: whether a history socket is wanted at all.\<close>

definition historyKey :: "state \<Rightarrow> string option" where
  "historyKey s =
     (if token s = [] \<or> \<not> truthyStr (activeId s) then None
      else if historyActiveTokenRef s \<noteq> Some (token s) then None
      else if historyWsDisabledRef s then None
      else if historyWsModeRef s \<noteq> Initial then None
      else if truthyStr (historyInitialSessionRef s)
              \<and> activeId s \<noteq> historyInitialSessionRef s then None
      else Some (token s @ ''::'' @ the (activeId s)))"

text \<open>
  The two watchers of \<^verbatim>\<open>historyKey\<close>, when the key changes to the value it has in the
  state: the body of the first, then the clean-up that the previous run of the second
  registered (when it had a key), then the body of the second. With no key the socket is
  dropped; with a key the channel is enabled again and connects. \<open>url\<close> is the url
  the second watcher builds from the page's location.
\<close>

definition historyCleanup :: "state \<Rightarrow> state" where
  "historyCleanup s =
     (let s1 = (case historyRetryRef s of
                  Some h \<Rightarrow> (clearTimeout h s)\<lparr> historyRetryRef := None \<rparr>
                | None \<Rightarrow> s);
          s2 = (case historyConnectTimerRef s1 of
                  Some h \<Rightarrow> (clearTimeout h s1)\<lparr> historyConnectTimerRef := None \<rparr>
                | None \<Rightarrow> s1)
      in (cancelPrimeFill (cancelPrimeHistory s2))
           \<lparr> primeHistoryInFlightRef := False, pendingHistoryRequests := [],
             historyWsUrlRef := None, historyWsRef := None \<rparr>)"

definition historyKeyChanged :: "bool \<Rightarrow> string \<Rightarrow> state \<Rightarrow> state" where
  "historyKeyChanged hadScope url s =
     (case historyKey s of
        None \<Rightarrow> closeHistorySocket (if hadScope then historyCleanup s else s)
      | Some key \<Rightarrow>
          let s0 = schedulePrimeHistory True (s\<lparr> lazyHistoryReady := True \<rparr>);
              s1 = (if hadScope then historyCleanup s0 else s0);
              s2 = s1\<lparr> historyWsDisabledRef := False, historyWsAttemptRef := 0,
                       historyWsUrlRef := Some url \<rparr>
          in historyConnect (the (activeId s2)) (token s2) s2)"



definition execScenario :: "string list" where
  "execScenario =
     [''task_started'', ''exec_command_begin'', ''exec_command_begin'',
      ''exec_command_end'', ''exec_command_end'', ''task_complete'']"

text \<open>A state in which session \<open>A\<close> is active and its resume is pending.\<close>

definition resumedState :: state where
  "resumedState =
     (initialState ''tok'')
       \<lparr> activeId := Some ''A'', lastRequestedSessionRef := Some ''A'',
         pendingResumeRef := Some ''A'' \<rparr>"

section \<open>Scenarios and auxiliary notions\<close>



text \<open>A user message event, a history line that carries an event, and a tail response.\<close>

definition userEvent :: "string \<Rightarrow> int \<Rightarrow> string \<Rightarrow> json" where
  "userEvent ident sq txt =
     JObj [(''id'', JStr ident), (''event_seq'', JNum sq),
           (''msg'', JObj [(''type'', JStr ''user_message''), (''message'', JStr txt)])]"

definition eventLine :: "int \<Rightarrow> json \<Rightarrow> HistoryLine" where
  "eventLine i ev =
     \<lparr> line_index = Some i, line_value = None, line_type = ''event'', line_payload = ev \<rparr>"

definition fillState :: state where
  "fillState =
     (initialState ''tok'')
       \<lparr> sessions := [\<lparr> conversation_id = ''A'', message_count = Some 120 \<rparr>],
         activeId := Some ''A'' \<rparr>"

definition fillChunk :: "int option \<Rightarrow> HistoryChunk" where
  "fillChunk st =
     \<lparr> chunk_items = [eventLine 5 (userEvent ''sub'' 1 ''hello'')],
       start_index = st, end_index = Some 5, truncated = True,
       chunk_before = None, chunk_after = None, chunk_anchor = Some ''tail'' \<rparr>"









text \<open>
  A line \<^verbatim>\<open>registerHistoryLines\<close> does not keep although its index is new: an
  \<open>agent_message\<close> event, when the batch holds the response item of an assistant
  message (\<open>skipAgentMessages\<close>).
\<close>

definition supersededLine :: "bool \<Rightarrow> HistoryLine \<Rightarrow> bool" where
  "supersededLine skipAgentMessages line =
     (skipAgentMessages \<and> entry_type (extractEntry line) = ''event''
      \<and> getProp (js_or (js_or (getProp (payload (extractEntry line)) ''msg'')
                           (getProp (payload (extractEntry line)) ''message''))
                    (getProp (payload (extractEntry line)) ''event'')) ''type''
          = JStr ''agent_message'')"

text \<open>
  The scenario of an older page that overlaps the seen range: the indices 10 to 50 are
  seen, and the page for \<open>before = 10\<close> has the lines 0 to 15, all of them user
  messages, or with the response item of an assistant message at index 0 and the
  \<open>agent_message\<close> event it supersedes at index 1.
\<close>

definition userLines :: "int list \<Rightarrow> HistoryLine list" where
  "userLines is = map (\<lambda>i. eventLine i (userEvent ''sub'' i ''m'')) is"

definition assistantItemLine :: "int \<Rightarrow> HistoryLine" where
  "assistantItemLine i =
     \<lparr> line_index = Some i, line_value = None, line_type = ''response_item'',
       line_payload =
         JObj [(''type'', JStr ''message''), (''role'', JStr ''assistant''),
               (''content'', JArr [JObj [(''type'', JStr ''output_text''),
                                         (''text'', JStr ''done'')]])] \<rparr>"

definition agentMessageLine :: "int \<Rightarrow> HistoryLine" where
  "agentMessageLine i =
     eventLine i
       (JObj [(''id'', JStr ''sub''), (''event_seq'', JNum i),
              (''msg'', JObj [(''type'', JStr ''agent_message''), (''message'', JStr ''done'')])])"

definition overlapState :: state where
  "overlapState = fillState\<lparr> seenLineIndexRef := {10..50} \<rparr>"

definition beforeChunk :: "HistoryLine list \<Rightarrow> HistoryChunk" where
  "beforeChunk ls =
     \<lparr> chunk_items = ls, start_index = Some 0, end_index = Some 15, truncated = False,
       chunk_before = Some 10, chunk_after = None, chunk_anchor = None \<rparr>"

definition plainLines :: "HistoryLine list" where
  "plainLines = userLines [0, 1, 2, 3, 4, 5, 6, 7, 8, 9, 10, 11, 12, 13, 14, 15]"

definition supersedingLines :: "HistoryLine list" where
  "supersedingLines =
     assistantItemLine 0 # agentMessageLine 1
       # userLines [2, 3, 4, 5, 6, 7, 8, 9, 10, 11, 12, 13, 14, 15]"

section \<open>Properties\<close>

subsection \<open>Activity labels of two overlapping commands\<close>

lemma activity_task_started:
  "updateActivityFromEvent ''task_started'' a =
     a\<lparr> activityLabel := Some ''Thinking'', taskActive := True \<rparr>"
  by (simp add: updateActivityFromEvent_def noteActivity_def)

lemma activity_exec_begin:
  "updateActivityFromEvent ''exec_command_begin'' a =
     a\<lparr> activeExecCount := activeExecCount a + 1, activityLabel := Some ''Running command'' \<rparr>"
  by (simp add: updateActivityFromEvent_def)

lemma activity_exec_end:
  "updateActivityFromEvent ''exec_command_end'' a =
     settleActivity (a\<lparr> activeExecCount := max 0 (activeExecCount a - 1) \<rparr>)"
  by (simp add: updateActivityFromEvent_def)

lemma activity_task_complete:
  "updateActivityFromEvent ''task_complete'' a = settleActivity (a\<lparr> taskActive := False \<rparr>)"
  by (simp add: updateActivityFromEvent_def)

lemma activity_scenario_run:
  "activityRun resetActivity execScenario =
     [\<lparr> taskActive = True, activityLabel = Some ''Thinking'', activeExecCount = 0,
        activeToolCount = 0 \<rparr>,
      \<lparr> taskActive = True, activityLabel = Some ''Running command'', activeExecCount = 1,
        activeToolCount = 0 \<rparr>,
      \<lparr> taskActive = True, activityLabel = Some ''Running command'', activeExecCount = 2,
        activeToolCount = 0 \<rparr>,
      \<lparr> taskActive = True, activityLabel = Some ''Running command'', activeExecCount = 1,
        activeToolCount = 0 \<rparr>,
      \<lparr> taskActive = True, activityLabel = Some ''Running command'', activeExecCount = 0,
        activeToolCount = 0 \<rparr>,
      \<lparr> taskActive = False, activityLabel = None, activeExecCount = 0,
        activeToolCount = 0 \<rparr>]"
  by (simp add: execScenario_def resetActivity_def activity_task_started activity_exec_begin
      activity_exec_end activity_task_complete settleActivity_def Let_def)

text \<open>
  Claim C5, as the code has it. From a reset activity state, the event types
  \<open>task_started, exec_command_begin, exec_command_begin, exec_command_end,
  exec_command_end, task_complete\<close> give the labels Thinking, Running command, Running
  command, Running command, Running command and no label (idle): the command counter
  reads 0, 1, 2, 1, 0, 0, so it reaches zero only after both end events, but
  \<^verbatim>\<open>settleActivity\<close> keeps the last label while the task is still active, and the
  label is cleared by \<open>task_complete\<close> only.
\<close>

theorem activity_sequence_overlapping_exec:
  "map activityLabel (activityRun resetActivity execScenario) =
     [Some ''Thinking'', Some ''Running command'', Some ''Running command'',
      Some ''Running command'', Some ''Running command'', None] \<and>
   map activeExecCount (activityRun resetActivity execScenario) = [0, 1, 2, 1, 0, 0]"
  by (simp add: activity_scenario_run)

text \<open>
  The label after the second \<open>exec_command_end\<close> is not idle: both the label
  reference and the status shown to the user still read Running command.
\<close>

theorem activity_fifth_label_not_idle:
  "activityLabel (activityRun resetActivity execScenario ! 4) = Some ''Running command'' \<and>
   composerStatus (setActivity (activityRun resetActivity execScenario ! 4) (initialState []))
     = Some ''Running command''"
  by (simp add: activity_scenario_run setActivity_def composerStatus_def initialState_def)

subsection \<open>Accepting a resume confirmation\<close>

text \<open>
  Claim C8, as the code has it. A \<open>conversation_resumed\<close> message leaves the state as
  it is when its \<open>requested_id\<close> is present (not empty) and differs from the active
  session id, or differs from a most recently requested id that is set. Every other
  message is accepted, also one that carries no \<open>requested_id\<close>: the pending resume is
  cleared, a conversation id it carries becomes the runtime id, the error is cleared and the
  status is Streaming.
\<close>

theorem conversation_resumed_guard:
  "(truthyStr (requested_id m) \<and> requested_id m \<noteq> activeId s
      \<longrightarrow> onConversationResumed m s = s) \<and>
   (truthyStr (requested_id m) \<and> truthyStr (lastRequestedSessionRef s)
      \<and> requested_id m \<noteq> lastRequestedSessionRef s
      \<longrightarrow> onConversationResumed m s = s) \<and>
   ((\<not> truthyStr (requested_id m)
       \<or> (requested_id m = activeId s
            \<and> (\<not> truthyStr (lastRequestedSessionRef s)
                 \<or> requested_id m = lastRequestedSessionRef s)))
      \<longrightarrow> pendingResumeRef (onConversationResumed m s) = None
          \<and> status (onConversationResumed m s) = ''Streaming''
          \<and> error (onConversationResumed m s) = None
          \<and> runtimeId (onConversationResumed m s) =
                (if truthyStr (resumed_conversation_id m) then resumed_conversation_id m
                 else runtimeId s))"
  by (auto simp: onConversationResumed_def)

theorem conversation_resumed_guard_witness:
  "onConversationResumed \<lparr> resumed_conversation_id = Some ''R'', requested_id = Some ''B'' \<rparr>
      resumedState = resumedState \<and>
   status (onConversationResumed \<lparr> resumed_conversation_id = Some ''R'', requested_id = Some ''A'' \<rparr>
      resumedState) = ''Streaming'' \<and>
   runtimeId (onConversationResumed \<lparr> resumed_conversation_id = Some ''R'', requested_id = Some ''A'' \<rparr>
      resumedState) = Some ''R''"
  using conversation_resumed_guard
      [of "\<lparr> resumed_conversation_id = Some ''R'', requested_id = Some ''B'' \<rparr>" resumedState]
    conversation_resumed_guard
      [of "\<lparr> resumed_conversation_id = Some ''R'', requested_id = Some ''A'' \<rparr>" resumedState]
  by (simp add: resumedState_def initialState_def)

text \<open>
  A confirmation without \<open>requested_id\<close> is accepted while session \<open>A\<close> is active,
  although its \<open>requested_id\<close> does not equal the active id.
\<close>

theorem conversation_resumed_without_requested_id:
  "requested_id \<lparr> resumed_conversation_id = Some ''R'', requested_id = None \<rparr>
      \<noteq> activeId resumedState \<and>
   pendingResumeRef (onConversationResumed
      \<lparr> resumed_conversation_id = Some ''R'', requested_id = None \<rparr> resumedState) = None \<and>
   runtimeId (onConversationResumed
      \<lparr> resumed_conversation_id = Some ''R'', requested_id = None \<rparr> resumedState) = Some ''R'' \<and>
   status (onConversationResumed
      \<lparr> resumed_conversation_id = Some ''R'', requested_id = None \<rparr> resumedState) = ''Streaming''"
  by (simp add: onConversationResumed_def resumedState_def initialState_def)

subsection \<open>Evaluation and frame lemmas\<close>

lemmas parse_eval =
  parseHistoryItems_def parseLine_def parseEventEntry_def eventBranch_def extractEntry_def
  eventKeyFromPayload_def js_or_def js_coalesce_def pushUnique_def signatureFor_def
  entryItem_def makeId_def asText_def joinElem_def

lemmas chunk_eval =
  handleHistoryChunk_def hasAssistantResponseItem_def registerLine_def markLineIndex_def
  resetHistoryTracking_def trackingOf_def setTracking_def mergeTail_def mergeHead_def mergeBefore_def mergeAfter_def
  extendRange_def cancelPrimeFill_def cancelPrimeHistory_def clearTimeout_def setTimeout_def
  shouldAutoFillHistory_def messageCountFor_def dropEventDuplicates_def
  HISTORY_TARGET_LIMIT_def HISTORY_AUTO_FILL_THRESHOLD_def

lemma cancelPrimeFill_frame:
  "cancelPrimeFill s =
     s\<lparr> timers := filter (\<lambda>t. Some (handle t) \<noteq> primeFillTimerRef s) (timers s),
        primeFillTimerRef := None, primeFillInFlightRef := False,
        primeFillExpectedBeforeRef := None \<rparr>"
  by (cases "primeFillTimerRef s") (simp_all add: cancelPrimeFill_def clearTimeout_def)

lemma cancelPrimeHistory_frame:
  "cancelPrimeHistory s =
     s\<lparr> timers := filter (\<lambda>t. Some (handle t) \<noteq> primeHistoryTimerRef s) (timers s),
        primeHistoryTimerRef := None \<rparr>"
  by (cases "primeHistoryTimerRef s") (simp_all add: cancelPrimeHistory_def clearTimeout_def)

lemma shouldAutoFillHistory_cong:
  "sessions t = sessions s \<Longrightarrow> shouldAutoFillHistory i t = shouldAutoFillHistory i s"
  by (simp add: shouldAutoFillHistory_def messageCountFor_def)

lemma handleHistoryChunk_tail:
  assumes "chunk_anchor m = Some ''tail''"
  shows "handleHistoryChunk sf m s =
     (let reg = registerHistoryLines (chunk_items m) (hasAssistantResponseItem (chunk_items m))
                  \<lparr> seenLineIndex = {}, seenEvent = {} \<rparr>;
          s3 = setTracking (snd reg) (s\<lparr> primeHistoryInFlightRef := False \<rparr>)
      in case parseHistoryItems sf (fst reg) of
           Inl e \<Rightarrow> Threw e s3
         | Inr parsed \<Rightarrow>
             Completed
               ((extendRange m
                   (mergeTail m (map (\<lambda>it. it\<lparr> origin := Some FromHistory \<rparr>) parsed) s3))
                  \<lparr> loading := False, status := ''Live'', sessionLoading := False \<rparr>))"
  using assms
  by (simp add: handleHistoryChunk_def Let_def resetHistoryTracking_def trackingOf_def
      setTracking_def split: sum.splits)



lemma clear_fresh_handle:
  "list_all (\<lambda>t. handle t < n) ts \<Longrightarrow> handle x = n
     \<Longrightarrow> filter (\<lambda>t. handle t \<noteq> n) (filter P ts @ [x]) = filter P ts"
  by (induction ts) auto


subsection \<open>The follow-up request of a truncated tail response\<close>


lemma dec_int_5: "dec_int 5 = ''5''"
  by (simp add: dec_int_def dec_nat.simps digit_char_def)

lemma fillState_fields:
  "timers fillState = []" "nextTimerHandle fillState = 1" "primeFillTimerRef fillState = None"
  "primeHistoryTimerRef fillState = None" "historySent fillState = []" "streamSent fillState = []"
  "pendingHistoryRequests fillState = []" "activeId fillState = Some ''A''"
  "sessions fillState = [\<lparr> conversation_id = ''A'', message_count = Some 120 \<rparr>]"
  "historyWsRef fillState = None" "wsRef fillState = None"
  by (simp_all add: fillState_def initialState_def)

lemma fillChunk_fields:
  "chunk_items (fillChunk st) = [eventLine 5 (userEvent ''sub'' 1 ''hello'')]"
  "start_index (fillChunk st) = st" "end_index (fillChunk st) = Some 5"
  "truncated (fillChunk st)" "chunk_anchor (fillChunk st) = Some ''tail''"
  by (simp_all add: fillChunk_def)

lemma fill_register:
  "registerHistoryLines [eventLine 5 (userEvent ''sub'' 1 ''hello'')]
     (hasAssistantResponseItem [eventLine 5 (userEvent ''sub'' 1 ''hello'')])
     \<lparr> seenLineIndex = {}, seenEvent = {} \<rparr> =
   ([eventLine 5 (userEvent ''sub'' 1 ''hello'')],
    \<lparr> seenLineIndex = {5}, seenEvent = {''sub:1''} \<rparr>)"
  by (simp add: eventLine_def userEvent_def hasAssistantResponseItem_def registerLine_def
      markLineIndex_def extractEntry_def eventKeyFromPayload_def js_or_def Let_def dec_int_def
      dec_nat.simps digit_char_def)

lemma fill_parse:
  "parseHistoryItems js_String [eventLine 5 (userEvent ''sub'' 1 ''hello'')] =
     Inr [\<lparr> item_id = ''5-user'', kind = User, subkind = Some ''message'', title = JStr ''You'',
            item_text = Some ''hello'', meta = None, imageUrl = JUndefined, item_index = Some 5,
            eventKey = Some ''sub:1'', origin = None \<rparr>]"
  by (simp add: eventLine_def userEvent_def parse_eval Let_def dec_int_def dec_nat.simps
      digit_char_def)

lemma fill_handle:
  "handleHistoryChunk js_String (fillChunk st) s =
     Completed
       ((extendRange (fillChunk st)
          (mergeTail (fillChunk st)
            [\<lparr> item_id = ''5-user'', kind = User, subkind = Some ''message'', title = JStr ''You'',
               item_text = Some ''hello'', meta = None, imageUrl = JUndefined,
               item_index = Some 5, eventKey = Some ''sub:1'', origin = Some FromHistory \<rparr>]
            (setTracking \<lparr> seenLineIndex = {5}, seenEvent = {''sub:1''} \<rparr>
               (s\<lparr> primeHistoryInFlightRef := False \<rparr>))))
         \<lparr> loading := False, status := ''Live'', sessionLoading := False \<rparr>)"
  by (simp add: handleHistoryChunk_tail fillChunk_fields fill_register fill_parse Let_def
      del: registerHistoryLines.simps)



subsection \<open>Delivering a tail response twice\<close>


lemma mergeTail_items: "items (mergeTail m hist s) = hist"
  by (simp add: mergeTail_def Let_def cancelPrimeHistory_frame cancelPrimeFill_frame setTimeout_def)

lemma mergeTail_historyWsRef: "historyWsRef (mergeTail m hist s) = historyWsRef s"
  by (simp add: mergeTail_def Let_def cancelPrimeHistory_frame cancelPrimeFill_frame setTimeout_def)

lemma extendRange_items: "items (extendRange m s) = items s"
  by (simp add: extendRange_def Let_def)

lemma extendRange_historyWsRef: "historyWsRef (extendRange m s) = historyWsRef s"
  by (simp add: extendRange_def Let_def)

text \<open>
  The items a tail response leaves, whatever the state was: the parsed items of its fresh
  lines, or the old items when the parser throws.
\<close>

lemma tail_outcome_items:
  assumes "chunk_anchor m = Some ''tail''"
  shows "items (outcomeState (handleHistoryChunk sf m s)) =
     (case parseHistoryItems sf
             (fst (registerHistoryLines (chunk_items m)
                     (hasAssistantResponseItem (chunk_items m))
                     \<lparr> seenLineIndex = {}, seenEvent = {} \<rparr>)) of
        Inl e \<Rightarrow> items s
      | Inr parsed \<Rightarrow> map (\<lambda>it. it\<lparr> origin := Some FromHistory \<rparr>) parsed)"
  by (simp add: handleHistoryChunk_tail [OF assms] Let_def extendRange_items mergeTail_items
      setTracking_def split: sum.splits)

lemma tail_outcome_historyWsRef:
  assumes "chunk_anchor m = Some ''tail''"
  shows "historyWsRef (outcomeState (handleHistoryChunk sf m s)) = historyWsRef s"
  by (simp add: handleHistoryChunk_tail [OF assms] Let_def extendRange_historyWsRef
      mergeTail_historyWsRef setTracking_def split: sum.splits)

lemma deliver_chunk_items:
  "items (deliver sf (HistoryChannelChunk m) s) = items (outcomeState (handleHistoryChunk sf m s))"
  "items (deliver sf (StreamChunk m) s) =
     (if historyWsRef s \<noteq> Some OPEN then items (outcomeState (handleHistoryChunk sf m s))
      else items s)"
  by (cases "handleHistoryChunk sf m s"; simp add: deliver_def)+

lemma deliver_chunk_historyWsRef:
  "historyWsRef (deliver sf (HistoryChannelChunk m) s) =
     historyWsRef (outcomeState (handleHistoryChunk sf m s))"
  "historyWsRef (deliver sf (StreamChunk m) s) =
     (if historyWsRef s \<noteq> Some OPEN
      then historyWsRef (outcomeState (handleHistoryChunk sf m s)) else historyWsRef s)"
  by (cases "handleHistoryChunk sf m s"; simp add: deliver_def)+

text \<open>
  Claim C2. A response with anchor \<open>tail\<close> delivered twice in a row, on the stream
  socket or on the history socket, leaves the same item list as delivered once: the
  tracking sets are reset before its lines are registered, so both deliveries parse the
  same fresh lines and replace the list by the same items (and when the parser throws,
  both leave the list as it was).
\<close>

theorem tail_response_idempotent:
  assumes "chunk_anchor m = Some ''tail''"
  shows "items (deliver sf (StreamChunk m) (deliver sf (StreamChunk m) s)) =
           items (deliver sf (StreamChunk m) s) \<and>
         items (deliver sf (HistoryChannelChunk m) (deliver sf (HistoryChannelChunk m) s)) =
           items (deliver sf (HistoryChannelChunk m) s)"
  by (simp add: deliver_chunk_items deliver_chunk_historyWsRef tail_outcome_items [OF assms]
      tail_outcome_historyWsRef [OF assms] split: sum.splits)

theorem tail_response_idempotent_witness:
  "items (deliver js_String (StreamChunk (fillChunk (Some 5))) fillState) =
     [\<lparr> item_id = ''5-user'', kind = User, subkind = Some ''message'', title = JStr ''You'',
        item_text = Some ''hello'', meta = None, imageUrl = JUndefined, item_index = Some 5,
        eventKey = Some ''sub:1'', origin = Some FromHistory \<rparr>] \<and>
   items (deliver js_String (StreamChunk (fillChunk (Some 5)))
            (deliver js_String (StreamChunk (fillChunk (Some 5))) fillState)) =
     [\<lparr> item_id = ''5-user'', kind = User, subkind = Some ''message'', title = JStr ''You'',
        item_text = Some ''hello'', meta = None, imageUrl = JUndefined, item_index = Some 5,
        eventKey = Some ''sub:1'', origin = Some FromHistory \<rparr>]"
proof -
  have once: "items (deliver js_String (StreamChunk (fillChunk (Some 5))) fillState) =
     [\<lparr> item_id = ''5-user'', kind = User, subkind = Some ''message'', title = JStr ''You'',
        item_text = Some ''hello'', meta = None, imageUrl = JUndefined, item_index = Some 5,
        eventKey = Some ''sub:1'', origin = Some FromHistory \<rparr>]"
    by (simp add: deliver_chunk_items fillState_fields fill_handle extendRange_items
        mergeTail_items)
  from tail_response_idempotent [OF fillChunk_fields(5) [of "Some 5"], of js_String fillState] once
  show ?thesis by simp
qed

subsection \<open>What the parser pushes\<close>

lemma entryItem_fields [simp]:
  "item_index (entryItem i k sk ttl txt idx key) = idx"
  "eventKey (entryItem i k sk ttl txt idx key) = key"
  "origin (entryItem i k sk ttl txt idx key) = None"
  by (simp_all add: entryItem_def)





subsection \<open>The next live index\<close>



















subsection \<open>Events without a key\<close>













subsection \<open>An older page that overlaps what was seen\<close>

lemma registerLine_index:
  assumes "line_index l = Some i"
  shows "fst (registerLine l skip tr) = (i \<notin> seenLineIndex tr \<and> \<not> supersededLine skip l)"
    and "seenLineIndex (snd (registerLine l skip tr)) = insert i (seenLineIndex tr)"
  using assms
  by (auto simp: registerLine_def supersededLine_def markLineIndex_def Let_def
      split: option.splits)

text \<open>
  With pairwise different indices in the batch, the lines kept are those whose index was
  not seen before the batch and that are not superseded; every index of the batch is seen
  afterwards.
\<close>

lemma registerHistoryLines_distinct:
  assumes "distinct (map line_index ls)" and "\<forall>l \<in> set ls. line_index l \<noteq> None"
  shows "fst (registerHistoryLines ls skip tr) =
           filter (\<lambda>l. the (line_index l) \<notin> seenLineIndex tr \<and> \<not> supersededLine skip l) ls
         \<and> seenLineIndex (snd (registerHistoryLines ls skip tr)) =
           seenLineIndex tr \<union> (\<lambda>l. the (line_index l)) ` set ls"
  using assms
proof (induction ls arbitrary: tr)
  case Nil
  show ?case by simp
next
  case (Cons l ls)
  from Cons.prems obtain i where i: "line_index l = Some i" by auto
  have rest: "\<forall>l' \<in> set ls. the (line_index l') \<noteq> i"
    using Cons.prems i by force
  have filt: "filter (\<lambda>l'. the (line_index l') \<noteq> i \<and> the (line_index l') \<notin> seenLineIndex tr
                           \<and> \<not> supersededLine skip l') ls =
              filter (\<lambda>l'. the (line_index l') \<notin> seenLineIndex tr
                           \<and> \<not> supersededLine skip l') ls"
    using rest by (intro filter_cong) auto
  from Cons.prems have "distinct (map line_index ls)" "\<forall>l \<in> set ls. line_index l \<noteq> None"
    by auto
  note IH = Cons.IH [OF this, of "snd (registerLine l skip tr)"]
  show ?case
    using IH by (auto simp: Let_def registerLine_index [OF i] i filt)
qed

lemma handleHistoryChunk_before:
  assumes "chunk_anchor m \<noteq> Some ''head''" and "chunk_anchor m \<noteq> Some ''tail''"
    and "chunk_before m = Some b"
  shows "handleHistoryChunk sf m s =
     (let reg = registerHistoryLines (chunk_items m) (hasAssistantResponseItem (chunk_items m))
                  (trackingOf s);
          s3 = setTracking (snd reg) (s\<lparr> primeHistoryInFlightRef := False \<rparr>)
      in case parseHistoryItems sf (fst reg) of
           Inl e \<Rightarrow> Threw e s3
         | Inr parsed \<Rightarrow>
             Completed
               ((extendRange m
                   (mergeBefore m (map (\<lambda>it. it\<lparr> origin := Some FromHistory \<rparr>) parsed) s3))
                  \<lparr> loading := False, status := ''Live'', sessionLoading := False \<rparr>))"
  using assms
  by (simp add: handleHistoryChunk_def Let_def trackingOf_def setTracking_def split: sum.splits)

lemma dropEventDuplicates_items_cong:
  "items t = items s \<Longrightarrow> items (dropEventDuplicates h t) = items (dropEventDuplicates h s)"
  by (simp add: dropEventDuplicates_def Let_def)

lemma mergeBefore_fields:
  "items (mergeBefore m h s) = h @ items (dropEventDuplicates h s)"
  "seenLineIndexRef (mergeBefore m h s) = seenLineIndexRef s"
  by (simp_all add: mergeBefore_def Let_def dropEventDuplicates_def)

lemma extendRange_seenLineIndexRef: "seenLineIndexRef (extendRange m s) = seenLineIndexRef s"
  by (simp add: extendRange_def Let_def)

lemma overlap_indices:
  assumes "map line_index ls = map Some [0..15]"
  shows "distinct (map line_index ls)" and "\<forall>l \<in> set ls. line_index l \<noteq> None"
    and "{10..50} \<union> (\<lambda>l. the (line_index l)) ` set ls = {0..50}"
    and "filter (\<lambda>l. the (line_index l) \<notin> {10..50} \<and> \<not> P l) ls =
         filter (\<lambda>l. the (line_index l) \<le> 9 \<and> \<not> P l) ls"
proof -
  show d: "distinct (map line_index ls)"
    unfolding assms by (simp add: distinct_map)
  have mem: "line_index l \<in> Some ` {0..15}" if "l \<in> set ls" for l
  proof -
    from that have "line_index l \<in> set (map line_index ls)" by simp
    then show ?thesis unfolding assms by auto
  qed
  then show n: "\<forall>l \<in> set ls. line_index l \<noteq> None" by auto
  have rng: "0 \<le> the (line_index l) \<and> the (line_index l) \<le> 15" if "l \<in> set ls" for l
    using mem [OF that] by auto
  have "(\<lambda>l. the (line_index l)) ` set ls = the ` set (map line_index ls)"
    by (simp add: image_image)
  also have "\<dots> = {0..15}" unfolding assms by (simp add: image_image)
  finally show "{10..50} \<union> (\<lambda>l. the (line_index l)) ` set ls = {0..50}" by auto
  show "filter (\<lambda>l. the (line_index l) \<notin> {10..50} \<and> \<not> P l) ls =
         filter (\<lambda>l. the (line_index l) \<le> 9 \<and> \<not> P l) ls"
  proof (intro filter_cong refl)
    fix l assume "l \<in> set ls"
    from rng [OF this]
    show "(the (line_index l) \<notin> {10..50} \<and> \<not> P l) = (the (line_index l) \<le> 9 \<and> \<not> P l)"
      by auto
  qed
qed

text \<open>
  Claim C6, as the code has it. With the indices 10 to 50 seen, a response for
  \<open>before = 10\<close> whose lines have the indices 0 to 15 keeps exactly its lines of
  index 0 to 9 that are not superseded \<open>agent_message\<close> events; the lines of index 10
  to 15 are dropped. Every index from 0 to 50 is seen afterwards. The items parsed from
  the kept lines are put in front of the list (from which live duplicates of them were
  removed); when the parser throws, the list stays as it was.
\<close>

theorem before_chunk_keeps_unseen_lines:
  assumes "seenLineIndexRef s = {10..50}"
    and "map line_index (chunk_items m) = map Some [0..15]"
    and "chunk_anchor m = None" and "chunk_before m = Some 10"
  shows
    "(let kept = filter (\<lambda>l. the (line_index l) \<le> 9
                    \<and> \<not> supersededLine (hasAssistantResponseItem (chunk_items m)) l)
                  (chunk_items m)
      in fst (registerHistoryLines (chunk_items m) (hasAssistantResponseItem (chunk_items m))
               (trackingOf s)) = kept
         \<and> seenLineIndexRef (outcomeState (handleHistoryChunk sf m s)) = {0..50}
         \<and> (case parseHistoryItems sf kept of
               Inl e \<Rightarrow> items (outcomeState (handleHistoryChunk sf m s)) = items s
             | Inr parsed \<Rightarrow>
                 items (outcomeState (handleHistoryChunk sf m s)) =
                   map (\<lambda>it. it\<lparr> origin := Some FromHistory \<rparr>) parsed
                   @ items (dropEventDuplicates
                              (map (\<lambda>it. it\<lparr> origin := Some FromHistory \<rparr>) parsed) s)))"
proof -
  note idx = overlap_indices [OF assms(2)]
  have tr: "seenLineIndex (trackingOf s) = {10..50}"
    by (simp add: trackingOf_def assms(1))
  note reg = registerHistoryLines_distinct [OF idx(1,2),
      of "hasAssistantResponseItem (chunk_items m)" "trackingOf s", unfolded tr idx(3) idx(4)]
  have anchor: "chunk_anchor m \<noteq> Some ''head''" "chunk_anchor m \<noteq> Some ''tail''"
    by (simp_all add: assms(3))
  note unfolded = handleHistoryChunk_before [OF anchor assms(4), of sf s]
  have dup: "items (dropEventDuplicates h (setTracking x (s\<lparr> primeHistoryInFlightRef := False \<rparr>)))
      = items (dropEventDuplicates h s)" for h x
    by (rule dropEventDuplicates_items_cong) (simp add: setTracking_def)
  have seen: "seenLineIndexRef (setTracking x t) = seenLineIndex x" for x t
    by (simp add: setTracking_def)
  have its: "items (setTracking x (s\<lparr> primeHistoryInFlightRef := False \<rparr>)) = items s" for x
    by (simp add: setTracking_def)
  show ?thesis
    unfolding Let_def
    by (simp add: unfolded Let_def reg mergeBefore_fields extendRange_items
        extendRange_seenLineIndexRef dup seen its split: sum.splits)
qed

lemma upto_0_15: "[0..15] = [0, 1, 2, 3, 4, 5, 6, 7, 8, 9, 10, 11, 12, 13, 14, 15::int]"
  by code_simp

lemma plainLines_index: "map line_index plainLines = map Some [0..15]"
  by (simp add: upto_0_15 plainLines_def userLines_def eventLine_def)

lemma supersedingLines_index: "map line_index supersedingLines = map Some [0..15]"
  by (simp add: upto_0_15 supersedingLines_def userLines_def eventLine_def
      assistantItemLine_def agentMessageLine_def)

lemma overlapState_fields:
  "seenLineIndexRef overlapState = {10..50}" "items overlapState = []"
  by (simp_all add: overlapState_def fillState_def initialState_def)

lemma beforeChunk_fields:
  "chunk_items (beforeChunk ls) = ls" "chunk_anchor (beforeChunk ls) = None"
  "chunk_before (beforeChunk ls) = Some 10"
  by (simp_all add: beforeChunk_def)

lemma userLine_superseded: "supersededLine skip (eventLine i (userEvent a b c)) = False"
  by (simp add: supersededLine_def eventLine_def userEvent_def extractEntry_def js_or_def)

lemma eventLine_index: "line_index (eventLine i ev) = Some i"
  by (simp add: eventLine_def)

lemma plain_kept:
  "filter (\<lambda>l. the (line_index l) \<le> 9 \<and> \<not> supersededLine skip l) plainLines =
     userLines [0, 1, 2, 3, 4, 5, 6, 7, 8, 9]"
  by (simp add: plainLines_def userLines_def userLine_superseded eventLine_index)

lemma userLine_parse:
  "parseLine sf (eventLine i (userEvent a b c)) st =
     Inr (pushUnique (entryItem (makeId (Some i) ''user'') User ''message'' (JStr ''You'') c
            (Some i) (Some (a @ '':'' @ dec_int b))) st)"
  by (simp add: parseLine_def eventLine_def userEvent_def extractEntry_def parseEventEntry_def
      eventBranch_def js_or_def asText_def eventKeyFromPayload_def Let_def entryItem_def)

lemma dec_int_digits:
  "dec_int 0 = ''0''" "dec_int 1 = ''1''" "dec_int 2 = ''2''" "dec_int 3 = ''3''"
  "dec_int 4 = ''4''" "dec_int 5 = ''5''" "dec_int 6 = ''6''" "dec_int 7 = ''7''"
  "dec_int 8 = ''8''" "dec_int 9 = ''9''"
  by (simp_all add: dec_int_def dec_nat.simps digit_char_def)

lemma user_signature:
  "signatureFor (entryItem ident User ''message'' (JStr ''You'') c (Some i) key) None =
     dec_int i @ ''::user::message::You::'' @ c @ ''::''"
  by (simp add: signatureFor_def entryItem_def joinElem_def js_coalesce_def)

lemma plain_parse:
  "\<exists>parsed. parseHistoryItems js_String (userLines [0, 1, 2, 3, 4, 5, 6, 7, 8, 9]) = Inr parsed
      \<and> map item_index parsed = map Some [0, 1, 2, 3, 4, 5, 6, 7, 8, 9]"
  by (simp add: parseHistoryItems_def userLines_def userLine_parse pushUnique_def
      user_signature dec_int_digits Let_def)

lemma plain_no_assistant_item: "hasAssistantResponseItem plainLines = False"
  by (simp add: hasAssistantResponseItem_def plainLines_def userLines_def eventLine_def
      extractEntry_def)

theorem before_chunk_keeps_unseen_lines_witness:
  "fst (registerHistoryLines plainLines (hasAssistantResponseItem plainLines)
          (trackingOf overlapState)) = userLines [0, 1, 2, 3, 4, 5, 6, 7, 8, 9] \<and>
   seenLineIndexRef (outcomeState (handleHistoryChunk js_String (beforeChunk plainLines)
      overlapState)) = {0..50} \<and>
   map item_index (items (outcomeState (handleHistoryChunk js_String (beforeChunk plainLines)
      overlapState))) = map Some [0, 1, 2, 3, 4, 5, 6, 7, 8, 9]"
proof -
  obtain parsed where parsed:
    "parseHistoryItems js_String (userLines [0, 1, 2, 3, 4, 5, 6, 7, 8, 9]) = Inr parsed"
    "map item_index parsed = map Some [0, 1, 2, 3, 4, 5, 6, 7, 8, 9]"
    using plain_parse by blast
  have idx: "map line_index (chunk_items (beforeChunk plainLines)) = map Some [0..15]"
    by (simp add: beforeChunk_fields plainLines_index)
  have none: "items (dropEventDuplicates h overlapState) = []" for h
    by (simp add: dropEventDuplicates_def overlapState_fields)
  have idx_history: "map item_index (map (\<lambda>it. it\<lparr> origin := Some FromHistory \<rparr>) parsed)
      = map item_index parsed"
    by (simp add: comp_def)
  from before_chunk_keeps_unseen_lines [OF overlapState_fields(1) idx beforeChunk_fields(2,3),
      of js_String]
  show ?thesis
    unfolding Let_def beforeChunk_fields plain_kept
    by (simp add: parsed none idx_history del: map_map)
qed

lemma superseding_has_assistant_item: "hasAssistantResponseItem supersedingLines = True"
  by (simp add: hasAssistantResponseItem_def supersedingLines_def assistantItemLine_def
      extractEntry_def)

lemma superseding_kept:
  "filter (\<lambda>l. the (line_index l) \<notin> {10..50} \<and> \<not> supersededLine True l) supersedingLines =
     assistantItemLine 0 # userLines [2, 3, 4, 5, 6, 7, 8, 9]"
proof -
  have 1: "supersededLine True (assistantItemLine 0) = False"
    and 2: "supersededLine True (agentMessageLine 1) = True"
    and 3: "line_index (assistantItemLine 0) = Some 0"
    and 4: "line_index (agentMessageLine 1) = Some 1"
    by (simp_all add: supersededLine_def assistantItemLine_def agentMessageLine_def eventLine_def
        extractEntry_def js_or_def)
  show ?thesis
    by (simp add: supersedingLines_def userLines_def userLine_superseded eventLine_index 1 2 3 4)
qed

lemma superseding_parse:
  "\<exists>parsed. parseHistoryItems js_String (assistantItemLine 0 # userLines [2, 3, 4, 5, 6, 7, 8, 9])
        = Inr parsed
      \<and> map item_index parsed = map Some [0, 2, 3, 4, 5, 6, 7, 8, 9]"
proof -
  have item: "parseLine js_String (assistantItemLine 0) ([], {}) =
      Inr ([entryItem ''0-msg'' Assistant ''message'' (JStr ''Assistant'') ''done'' (Some 0) None],
           {''0::assistant::message::Assistant::done::''})"
    by (simp add: parseLine_def assistantItemLine_def extractEntry_def parseResponseItem_def
        js_or_def roleToKind_def asText_def Let_def pushUnique_def signatureFor_def
        entryItem_def joinElem_def js_coalesce_def makeId_def dec_int_digits)
  show ?thesis
    by (simp add: parseHistoryItems_def item userLines_def userLine_parse pushUnique_def
        user_signature dec_int_digits Let_def)
qed

text \<open>
  With the response item of an assistant message at index 0, the \<open>agent_message\<close>
  event at index 1 is not kept although its index was not seen: the lines kept, and the
  entries put in front, are those of the indices 0 and 2 to 9.
\<close>

theorem before_chunk_drops_superseded_line:
  "seenLineIndexRef overlapState = {10..50} \<and>
   map line_index (chunk_items (beforeChunk supersedingLines)) = map Some [0..15] \<and>
   chunk_before (beforeChunk supersedingLines) = Some 10 \<and>
   map line_index (fst (registerHistoryLines supersedingLines
      (hasAssistantResponseItem supersedingLines) (trackingOf overlapState)))
     = map Some [0, 2, 3, 4, 5, 6, 7, 8, 9] \<and>
   map item_index (items (outcomeState (handleHistoryChunk js_String
      (beforeChunk supersedingLines) overlapState)))
     = map Some [0, 2, 3, 4, 5, 6, 7, 8, 9]"
proof -
  note idx = overlap_indices [OF supersedingLines_index]
  have tr: "seenLineIndex (trackingOf overlapState) = {10..50}"
    by (simp add: trackingOf_def overlapState_fields)
  have reg: "fst (registerHistoryLines supersedingLines (hasAssistantResponseItem supersedingLines)
      (trackingOf overlapState)) = assistantItemLine 0 # userLines [2, 3, 4, 5, 6, 7, 8, 9]"
    unfolding superseding_has_assistant_item
      registerHistoryLines_distinct [OF idx(1,2), of True "trackingOf overlapState", THEN conjunct1]
      tr superseding_kept ..
  obtain parsed where parsed:
    "parseHistoryItems js_String (assistantItemLine 0 # userLines [2, 3, 4, 5, 6, 7, 8, 9])
       = Inr parsed"
    "map item_index parsed = map Some [0, 2, 3, 4, 5, 6, 7, 8, 9]"
    using superseding_parse by blast
  have anchor: "chunk_anchor (beforeChunk supersedingLines) \<noteq> Some ''head''"
    "chunk_anchor (beforeChunk supersedingLines) \<noteq> Some ''tail''"
    by (simp_all add: beforeChunk_fields)
  have its: "items (outcomeState (handleHistoryChunk js_String (beforeChunk supersedingLines)
      overlapState)) = map (\<lambda>it. it\<lparr> origin := Some FromHistory \<rparr>) parsed"
    by (simp add: handleHistoryChunk_before [OF anchor beforeChunk_fields(3)] Let_def
        beforeChunk_fields(1) reg parsed extendRange_items mergeBefore_fields
        dropEventDuplicates_def setTracking_def overlapState_fields
        del: registerHistoryLines.simps)
  have lines: "map line_index (fst (registerHistoryLines supersedingLines
      (hasAssistantResponseItem supersedingLines) (trackingOf overlapState)))
      = map Some [0, 2, 3, 4, 5, 6, 7, 8, 9]"
    unfolding reg by (simp add: userLines_def eventLine_index assistantItemLine_def)
  have entries: "map item_index (items (outcomeState (handleHistoryChunk js_String
      (beforeChunk supersedingLines) overlapState))) = map Some [0, 2, 3, 4, 5, 6, 7, 8, 9]"
    unfolding its parsed(2) [symmetric] by (simp add: comp_def)
  show ?thesis
    unfolding lines entries
    by (simp add: overlapState_fields beforeChunk_fields supersedingLines_index)
qed

end
